theory Spec2Isabelle
  imports Complex_Main "HOL-Library.Char_ord" "HOL-Library.List_Lexorder"
begin

section \<open>Python values the toolkit handles\<close>

text \<open>
  The toolkit is a set of Python classes that download portable runtimes, clone
  repositories, fetch model files and talk to a local server. Its functions are sequences of
  calls into the operating system and the network, wrapped in \<open>try/except\<close>. The embedding
  keeps that shape: every function of the source is a program over a state made of the
  outside world and a trace of what the function did; a raised exception is a value.
\<close>

subsection \<open>Exceptions\<close>

text \<open>
  The exception classes the sources raise or catch. \<open>str(e)\<close> is the message.
  \<open>FileNotFoundError\<close>, the built-in \<open>ConnectionError\<close> and \<open>TimeoutError\<close> are
  subclasses of \<open>OSError\<close>; \<open>requests.exceptions.RequestException\<close> is one too, and
  \<open>RequestException\<close> stands for it and for its subclasses (\<open>HTTPError\<close>, \<open>Timeout\<close>, ...).
  \<open>OtherException\<close> is any other subclass of \<open>Exception\<close>.
\<close>

datatype exc_class =
    ImportError | ConnectionError | TimeoutError | RuntimeError | KeyError
  | FileNotFoundError | OSError | RequestException
  | AttributeError | OtherException

datatype exn = Exn (cls: exc_class) (msg: string)


subsection \<open>Strings\<close>

text \<open>\<open>s.split(c)\<close> for a one-character separator: \<open>"".split("/") = [""]\<close>.\<close>

fun split_on :: "char \<Rightarrow> string \<Rightarrow> string list" where
  "split_on c [] = [[]]"
| "split_on c (x # xs) =
     (if x = c then [] # split_on c xs
      else (case split_on c xs of [] \<Rightarrow> [[x]] | p # ps \<Rightarrow> (x # p) # ps))"

text \<open>\<open>s.rstrip(c)\<close> for a one-character set.\<close>

definition rstrip :: "char \<Rightarrow> string \<Rightarrow> string" where
  "rstrip c s = rev (dropWhile (\<lambda>x. x = c) (rev s))"

text \<open>\<open>s.replace(old, "")\<close>: every non-overlapping occurrence of \<open>old\<close>, from the left, is removed.\<close>

fun remove_all :: "string \<Rightarrow> string \<Rightarrow> string" where
  "remove_all old [] = []"
| "remove_all old (x # xs) =
     (if old \<noteq> [] \<and> take (length old) (x # xs) = old
      then remove_all old (drop (length old) (x # xs))
      else x # remove_all old xs)"

text \<open>\<open>sub in s\<close> and \<open>sep.join(xs)\<close>.\<close>

fun is_substring :: "string \<Rightarrow> string \<Rightarrow> bool" where
  "is_substring sub [] = (sub = [])"
| "is_substring sub (x # xs) = (take (length sub) (x # xs) = sub \<or> is_substring sub xs)"

fun join :: "string \<Rightarrow> string list \<Rightarrow> string" where
  "join sep [] = []"
| "join sep [x] = x"
| "join sep (x # y # ys) = x @ sep @ join sep (y # ys)"

text \<open>\<open>str(n)\<close> for an integer.\<close>

fun str_nat :: "nat \<Rightarrow> string" where
  "str_nat n = (if n < 10 then [''0123456789'' ! n] else str_nat (n div 10) @ [''0123456789'' ! (n mod 10)])"

declare str_nat.simps [simp del]

definition str_int :: "int \<Rightarrow> string" where
  "str_int i = (if i < 0 then ''-'' @ str_nat (nat (- i)) else str_nat (nat i))"

subsection \<open>Floating point\<close>

text \<open>
  A Python \<open>float\<close> is an IEEE 754 double: 53 bits of significand, exponents from \<open>-1022\<close>
  up. \<open>a / b\<close> on integers and \<open>x * y\<close> on floats return the double nearest to the exact
  result, a tie going to the even significand. \<open>fl\<close> is that rounding, subnormal numbers
  included; overflow is left out, the quotients of byte counts computed here staying far
  below it. \<open>int(x)\<close> truncates towards zero.
\<close>

definition round_half_even :: "real \<Rightarrow> int" where
  "round_half_even y =
     (let f = \<lfloor>y\<rfloor>; r = y - of_int f
      in if r < 1 / 2 then f else if r > 1 / 2 then f + 1 else if even f then f else f + 1)"

definition expo :: "real \<Rightarrow> int" where
  "expo x = max \<lfloor>log 2 x\<rfloor> (- 1022)"

definition ulp :: "real \<Rightarrow> real" where
  "ulp x = 2 powi (expo x - 52)"

definition fl :: "real \<Rightarrow> real" where
  "fl x = (if x > 0 then of_int (round_half_even (x / ulp x)) * ulp x
           else if x < 0 then - (of_int (round_half_even (- x / ulp (- x))) * ulp (- x))
           else 0)"

definition py_int :: "real \<Rightarrow> int" where
  "py_int x = (if x \<ge> 0 then \<lfloor>x\<rfloor> else \<lceil>x\<rceil>)"

text \<open>\<open>int(d / t * k)\<close> for integers \<open>d\<close>, \<open>t\<close>, \<open>k\<close>; the callers test \<open>t > 0\<close> first.\<close>

definition py_scale :: "int \<Rightarrow> int \<Rightarrow> int \<Rightarrow> int" where
  "py_scale d t k = py_int (fl (fl (of_int d / of_int t) * of_int k))"

subsection \<open>JSON\<close>

text \<open>
  What \<open>response.json()\<close> returns, what is sent as a payload, and the values of the
  registries. \<open>PFloat m d\<close> is the float written as the decimal literal \<open>m / 10^d\<close>;
  the toolkit stores and copies such values and computes nothing from them.
\<close>

datatype pyval =
    PNone | PBool bool | PInt int | PFloat int nat | PStr string
  | PList "pyval list" | PDict "(string \<times> pyval) list"

subsection \<open>Paths\<close>

text \<open>
  A \<open>pathlib.Path\<close> is the list of its parts, the root \<open>/\<close> being a part of an absolute
  path. The arithmetic is that of a pure path with \<open>/\<close> as the separator, which is how the
  registries write file names: empty parts and \<open>.\<close> are dropped, \<open>p / s\<close> is \<open>s\<close> when \<open>s\<close> is
  absolute, \<open>name\<close> is the last part.
\<close>

type_synonym path = "string list"

definition rel_parts :: "string \<Rightarrow> string list" where
  "rel_parts s = filter (\<lambda>p. p \<noteq> [] \<and> p \<noteq> ''.'') (split_on CHR ''/'' s)"

definition is_absolute :: "string \<Rightarrow> bool" where
  "is_absolute s = (case s of [] \<Rightarrow> False | c # _ \<Rightarrow> c = CHR ''/'')"

definition Path :: "string \<Rightarrow> path" where
  "Path s = (if is_absolute s then [''/''] else []) @ rel_parts s"

definition joinpath :: "path \<Rightarrow> string \<Rightarrow> path" where
  "joinpath p s = (if is_absolute s then Path s else p @ rel_parts s)"

definition path_name :: "path \<Rightarrow> string" where
  "path_name p = (if p = [] \<or> p = [''/''] then [] else last p)"


fun path_str :: "path \<Rightarrow> string" where
  "path_str [] = ''.''"
| "path_str [a] = a"
| "path_str (a # b # ps) = (if a = ''/'' then a @ path_str (b # ps) else a @ ''/'' @ path_str (b # ps))"

section \<open>The outside world\<close>

text \<open>
  What the operating system, the network and the third-party libraries do is not the
  toolkit's code. It is a parameter: a record of operations on a world \<open>'w\<close> that the
  embedding never looks into. Every theorem below holds for every such record.
\<close>

text \<open>Calls that return nothing: they change the world or raise.\<close>

datatype action =
    Mkdir path                  \<comment> \<open>\<open>p.mkdir(parents=True, exist_ok=True)\<close>\<close>
  | OpenWB path                 \<comment> \<open>\<open>open(p, "wb")\<close>\<close>
  | WriteChunk path nat         \<comment> \<open>\<open>f.write(chunk)\<close>, the chunk given by its length\<close>
  | WriteText path string       \<comment> \<open>\<open>p.write_text(s)\<close>\<close>
  | Unlink path                 \<comment> \<open>\<open>p.unlink(missing_ok=True)\<close>\<close>
  | Rmdir path                  \<comment> \<open>\<open>p.rmdir()\<close>\<close>
  | Rmtree path bool            \<comment> \<open>\<open>shutil.rmtree(p, ignore_errors=b)\<close>\<close>
  | Move path path              \<comment> \<open>\<open>shutil.move(str(src), str(dst))\<close>\<close>
  | ExtractAll path path        \<comment> \<open>\<open>ZipFile(zip).extractall(dest)\<close>\<close>
  | WriteBytes path nat         \<comment> \<open>\<open>p.write_bytes(data)\<close>, the data given by its length\<close>
  | SetEnv string string        \<comment> \<open>\<open>os.environ[k] = v\<close>\<close>

text \<open>The result of \<open>subprocess.run(cmd, capture_output=True, text=True)\<close>.\<close>

record completed =
  returncode :: int
  stdout :: string
  stderr :: string

text \<open>
  An HTTP response, as \<open>urllib\<close> and \<open>requests\<close> give it: the error \<open>raise_for_status\<close>
  raises, the \<open>Content-Length\<close> header after \<open>int()\<close> (which raises on a header that is not a
  number), and the body as the lengths of the chunks read one after the other, ended by the
  end of the stream or by an exception.
\<close>

record response =
  status_error :: "exn option"
  content_length :: "(exn + int) option"
  chunks :: "nat list"
  read_error :: "exn option"

text \<open>
  A response of the server's REST API: the error \<open>raise_for_status\<close> raises, whether
  \<open>response.content\<close> is empty, and what \<open>response.json()\<close> returns or raises.
\<close>

record api_response =
  api_status_error :: "exn option"
  content_empty :: bool
  json :: "exn + pyval"

text \<open>What a function did, in order: progress callbacks and calls to the outside.\<close>

datatype event =
    Progress int int string               \<comment> \<open>\<open>progress_callback(current, total, message)\<close>\<close>
  | Act action
  | Spawn "string list" "path option"     \<comment> \<open>\<open>subprocess.run(cmd, cwd=cwd)\<close>\<close>
  | UrlOpen string                        \<comment> \<open>\<open>urllib.request.urlopen\<close>\<close>
  | RequestsGet string                    \<comment> \<open>\<open>requests.get(url, stream=True)\<close>\<close>
  | ApiRequest string string              \<comment> \<open>\<open>requests.get\<close>, \<open>requests.post\<close> with a timeout of 30 s: method, URL\<close>
  | HfHubDownload string string "string option" path
  | VenvInstallRequirements path

record 'w os =
  path_exists :: "path \<Rightarrow> 'w \<Rightarrow> bool"
  is_dir :: "path \<Rightarrow> 'w \<Rightarrow> bool"
  listing :: "path \<Rightarrow> string \<Rightarrow> bool \<Rightarrow> 'w \<Rightarrow> path list"
  getenv :: "string \<Rightarrow> 'w \<Rightarrow> string option"
  perform :: "action \<Rightarrow> 'w \<Rightarrow> exn option \<times> 'w"
  subprocess_run :: "string list \<Rightarrow> path option \<Rightarrow> 'w \<Rightarrow> (exn + completed) \<times> 'w"
  urlopen :: "string \<Rightarrow> 'w \<Rightarrow> (exn + response) \<times> 'w"
  requests_get :: "string \<Rightarrow> 'w \<Rightarrow> (exn + response) \<times> 'w"
  api_request :: "string \<Rightarrow> string \<Rightarrow> pyval option \<Rightarrow> 'w \<Rightarrow> (exn + api_response) \<times> 'w"
  hf_hub_download :: "string \<Rightarrow> string \<Rightarrow> string option \<Rightarrow> path \<Rightarrow> 'w \<Rightarrow> (exn + string) \<times> 'w"
  venv_is_created :: "'w \<Rightarrow> bool"
  venv_install_requirements :: "path \<Rightarrow> bool \<Rightarrow> 'w \<Rightarrow> (exn + bool) \<times> 'w"
  hf_available :: bool
  requests_available :: bool
  pathsep :: string
  GIT_PATH :: string

text \<open>
  \<open>listing dir pattern recursive\<close> is \<open>dir.glob(pattern)\<close> or \<open>dir.rglob(pattern)\<close>, in the
  order the directory is read. \<open>venv_install_requirements\<close> is the method of the virtual-environment
  manager, a module the toolkit imports; its second argument says whether it was handed a
  progress callback. \<open>hf_available\<close> and \<open>requests_available\<close> say whether the imports of
  \<open>huggingface_hub\<close> and \<open>requests\<close> succeeded, \<open>pathsep\<close> is \<open>os.pathsep\<close>, and \<open>GIT_PATH\<close>
  is the constant of that name in \<open>config.py\<close>.
\<close>

section \<open>Programs\<close>

text \<open>
  A program takes the world and the trace so far and returns a value or a raised exception,
  with the new world and trace.
\<close>

type_synonym 'w state = "'w \<times> event list"
type_synonym ('a, 'w) prog = "'w state \<Rightarrow> (exn + 'a) \<times> 'w state"

definition ret :: "'a \<Rightarrow> ('a, 'w) prog" where
  "ret x = (\<lambda>s. (Inr x, s))"

definition raise :: "exn \<Rightarrow> ('a, 'w) prog" where
  "raise e = (\<lambda>s. (Inl e, s))"

definition bind :: "('a, 'w) prog \<Rightarrow> ('a \<Rightarrow> ('b, 'w) prog) \<Rightarrow> ('b, 'w) prog" where
  "bind m f = (\<lambda>s. case m s of (Inl e, s') \<Rightarrow> (Inl e, s') | (Inr x, s') \<Rightarrow> f x s')"

definition seq :: "(unit, 'w) prog \<Rightarrow> ('b, 'w) prog \<Rightarrow> ('b, 'w) prog" where
  "seq m k = bind m (\<lambda>_. k)"

text \<open>\<open>try: m except Exception as e: h e\<close>.\<close>

definition try_except :: "('a, 'w) prog \<Rightarrow> (exn \<Rightarrow> ('a, 'w) prog) \<Rightarrow> ('a, 'w) prog" where
  "try_except m h = (\<lambda>s. case m s of (Inl e, s') \<Rightarrow> h e s' | (Inr x, s') \<Rightarrow> (Inr x, s'))"

definition observe :: "('w \<Rightarrow> 'a) \<Rightarrow> ('a, 'w) prog" where
  "observe f = (\<lambda>(w, t). (Inr (f w), (w, t)))"

definition emit :: "event \<Rightarrow> (unit, 'w) prog" where
  "emit ev = (\<lambda>(w, t). (Inr (), (w, t @ [ev])))"

text \<open>
  \<open>if progress_callback: progress_callback(current, total, message)\<close>. Whether a callback
  was passed is a boolean; a call of it is an event of the trace. The callback is the
  caller's code: it is taken to return normally and to leave the world as it is.
\<close>

definition report :: "bool \<Rightarrow> int \<Rightarrow> int \<Rightarrow> string \<Rightarrow> (unit, 'w) prog" where
  "report cb current total_steps message =
     (if cb then emit (Progress current total_steps message) else ret ())"

definition act :: "'w os \<Rightarrow> action \<Rightarrow> (unit, 'w) prog" where
  "act os a = (\<lambda>(w, t). case perform os a w of
       (None, w') \<Rightarrow> (Inr (), (w', t @ [Act a]))
     | (Some e, w') \<Rightarrow> (Inl e, (w', t @ [Act a])))"

definition run :: "'w os \<Rightarrow> string list \<Rightarrow> path option \<Rightarrow> (completed, 'w) prog" where
  "run os cmd cwd = (\<lambda>(w, t). case subprocess_run os cmd cwd w of
       (r, w') \<Rightarrow> (r, (w', t @ [Spawn cmd cwd])))"

section \<open>ModelDownloader\<close>

text \<open>
  A \<open>model_info\<close> is given by the items the downloader reads, \<open>name\<close>, \<open>repo\<close>,
  \<open>filename\<close>, \<open>folder\<close>, \<open>subfolder\<close> and \<open>url\<close>, which are strings in every entry of
  the registry.
\<close>

type_synonym model_info = "string \<rightharpoonup> string"

record ModelDownloader =
  models_dir :: path

text \<open>\<open>d.get(key, default)\<close>.\<close>

definition dict_get :: "(string \<rightharpoonup> string) \<Rightarrow> string \<Rightarrow> string \<Rightarrow> string" where
  "dict_get d k dflt = (case d k of None \<Rightarrow> dflt | Some v \<Rightarrow> v)"

definition flatten_filename :: "string \<Rightarrow> string" where
  "flatten_filename filename = path_name (Path filename)"

definition model_path_of :: "ModelDownloader \<Rightarrow> model_info \<Rightarrow> path" where
  "model_path_of self model_info =
     joinpath (joinpath (models_dir self) (dict_get model_info ''folder'' ''checkpoints''))
              (dict_get model_info ''filename'' '''')"

definition flat_path_of :: "ModelDownloader \<Rightarrow> model_info \<Rightarrow> path" where
  "flat_path_of self model_info =
     joinpath (joinpath (models_dir self) (dict_get model_info ''folder'' ''checkpoints''))
              (flatten_filename (dict_get model_info ''filename'' ''''))"

definition check_model_exists :: "'w os \<Rightarrow> ModelDownloader \<Rightarrow> model_info \<Rightarrow> 'w \<Rightarrow> bool" where
  "check_model_exists os self model_info w =
     (path_exists os (model_path_of self model_info) w \<or> path_exists os (flat_path_of self model_info) w)"


definition get_model_status :: "'w os \<Rightarrow> ModelDownloader \<Rightarrow> model_info \<Rightarrow> 'w \<Rightarrow> string" where
  "get_model_status os self model_info w =
     (if check_model_exists os self model_info w then ''installed'' else ''missing'')"

section \<open>GitManager\<close>

record GitManager =
  base_dir :: path
  git_dir :: path
  git_exe :: path

definition GIT_DIR_NAME :: string where
  "GIT_DIR_NAME = ''git_portable''"

definition GitManager_init :: "path \<Rightarrow> GitManager" where
  "GitManager_init bd =
     \<lparr> base_dir = bd,
       git_dir = joinpath bd GIT_DIR_NAME,
       git_exe = joinpath (joinpath (joinpath bd GIT_DIR_NAME) ''cmd'') ''git.exe'' \<rparr>"

definition git_is_installed :: "'w os \<Rightarrow> GitManager \<Rightarrow> 'w \<Rightarrow> bool" where
  "git_is_installed os self w = path_exists os (git_exe self) w"




section \<open>ComfyAPI\<close>

record ComfyAPI =
  host :: string
  port :: int
  client_id :: "string option"















section \<open>The models registry\<close>

text \<open>
  \<open>MODELS\<close> of \<open>data/models_registry.py\<close>: a dictionary from model ids to records, in the
  order of the source. A dictionary is the list of its items, keys distinct.
\<close>

definition MODELS :: "(string \<times> (string \<times> pyval) list) list" where
  "MODELS = [
    (''sd15'',
    [(''name'', PStr ''SD 1.5 (Pruned EMA - 4.3GB)''),
     (''repo'', PStr ''runwayml/stable-diffusion-v1-5''),
     (''filename'', PStr ''v1-5-pruned-emaonly.safetensors''),
     (''folder'', PStr ''checkpoints''),
     (''size_gb'', PFloat 427 2),
     (''category'', PStr ''sd15'')]),
    (''sd15_fp16'',
    [(''name'', PStr ''SD 1.5 (FP16 - 2.0GB)''),
     (''repo'', PStr ''runwayml/stable-diffusion-v1-5''),
     (''filename'', PStr ''v1-5-pruned-emaonly.fp16.safetensors''),
     (''folder'', PStr ''checkpoints''),
     (''size_gb'', PFloat 20 1),
     (''category'', PStr ''sd15'')]),
    (''sd15_inpainting'',
    [(''name'', PStr ''SD 1.5 Inpainting (4.3GB)''),
     (''repo'', PStr ''runwayml/stable-diffusion-inpainting''),
     (''filename'', PStr ''sd-v1-5-inpainting.ckpt''),
     (''folder'', PStr ''checkpoints''),
     (''size_gb'', PFloat 427 2),
     (''category'', PStr ''sd15'')]),
    (''sd21'',
    [(''name'', PStr ''SD 2.1 768 (Pruned - 5.2GB)''),
     (''repo'', PStr ''stabilityai/stable-diffusion-2-1''),
     (''filename'', PStr ''v2-1_768-ema-pruned.safetensors''),
     (''folder'', PStr ''checkpoints''),
     (''size_gb'', PFloat 521 2),
     (''category'', PStr ''sd21'')]),
    (''sd21_base'',
    [(''name'', PStr ''SD 2.1 Base 512 (5.2GB)''),
     (''repo'', PStr ''stabilityai/stable-diffusion-2-1-base''),
     (''filename'', PStr ''v2-1_512-ema-pruned.safetensors''),
     (''folder'', PStr ''checkpoints''),
     (''size_gb'', PFloat 521 2),
     (''category'', PStr ''sd21'')]),
    (''sdxl_base'',
    [(''name'', PStr ''SDXL 1.0 Base (FP32 - 6.9GB)''),
     (''repo'', PStr ''stabilityai/stable-diffusion-xl-base-1.0''),
     (''filename'', PStr ''sd_xl_base_1.0.safetensors''),
     (''folder'', PStr ''checkpoints''),
     (''size_gb'', PFloat 694 2),
     (''category'', PStr ''sdxl'')]),
    (''sdxl_base_fp16'',
    [(''name'', PStr ''SDXL 1.0 Base (FP16 - 6.9GB)''),
     (''repo'', PStr ''stabilityai/stable-diffusion-xl-base-1.0''),
     (''filename'', PStr ''sd_xl_base_1.0_0.9vae.safetensors''),
     (''folder'', PStr ''checkpoints''),
     (''size_gb'', PFloat 694 2),
     (''category'', PStr ''sdxl'')]),
    (''sdxl_refiner'',
    [(''name'', PStr ''SDXL 1.0 Refiner (6.1GB)''),
     (''repo'', PStr ''stabilityai/stable-diffusion-xl-refiner-1.0''),
     (''filename'', PStr ''sd_xl_refiner_1.0.safetensors''),
     (''folder'', PStr ''checkpoints''),
     (''size_gb'', PFloat 608 2),
     (''category'', PStr ''sdxl'')]),
    (''sdxl_turbo'',
    [(''name'', PStr ''SDXL Turbo (FP16 - 6.9GB)''),
     (''repo'', PStr ''stabilityai/sdxl-turbo''),
     (''filename'', PStr ''sd_xl_turbo_1.0_fp16.safetensors''),
     (''folder'', PStr ''checkpoints''),
     (''size_gb'', PFloat 694 2),
     (''category'', PStr ''sdxl'')]),
    (''sdxl_lightning_4step'',
    [(''name'', PStr ''SDXL Lightning (4-step LoRA)''),
     (''repo'', PStr ''ByteDance/SDXL-Lightning''),
     (''filename'', PStr ''sdxl_lightning_4step_lora.safetensors''),
     (''folder'', PStr ''loras''),
     (''size_gb'', PFloat 39 2),
     (''category'', PStr ''sdxl'')]),
    (''sdxl_lightning_8step'',
    [(''name'', PStr ''SDXL Lightning (8-step LoRA)''),
     (''repo'', PStr ''ByteDance/SDXL-Lightning''),
     (''filename'', PStr ''sdxl_lightning_8step_lora.safetensors''),
     (''folder'', PStr ''loras''),
     (''size_gb'', PFloat 39 2),
     (''category'', PStr ''sdxl'')]),
    (''sdxl_lightning_4step_unet'',
    [(''name'', PStr ''SDXL Lightning (4-step UNet - 5.1GB)''),
     (''repo'', PStr ''ByteDance/SDXL-Lightning''),
     (''filename'', PStr ''sdxl_lightning_4step_unet.safetensors''),
     (''folder'', PStr ''unet''),
     (''size_gb'', PFloat 514 2),
     (''category'', PStr ''sdxl'')]),
    (''sdxl_lightning_8step_unet'',
    [(''name'', PStr ''SDXL Lightning (8-step UNet - 5.1GB)''),
     (''repo'', PStr ''ByteDance/SDXL-Lightning''),
     (''filename'', PStr ''sdxl_lightning_8step_unet.safetensors''),
     (''folder'', PStr ''unet''),
     (''size_gb'', PFloat 514 2),
     (''category'', PStr ''sdxl'')]),
    (''sdxl_hyper_1step_unet'',
    [(''name'', PStr ''SDXL Hyper (1-step UNet - 5.1GB)''),
     (''repo'', PStr ''ByteDance/Hyper-SD''),
     (''filename'', PStr ''Hyper-SDXL-1step-Unet.safetensors''),
     (''folder'', PStr ''unet''),
     (''size_gb'', PFloat 514 2),
     (''category'', PStr ''sdxl'')]),
    (''sdxl_hyper_8step_lora'',
    [(''name'', PStr ''SDXL Hyper (8-step LoRA)''),
     (''repo'', PStr ''ByteDance/Hyper-SD''),
     (''filename'', PStr ''Hyper-SDXL-8steps-lora.safetensors''),
     (''folder'', PStr ''loras''),
     (''size_gb'', PFloat 79 2),
     (''category'', PStr ''sdxl'')]),
    (''flux_schnell'',
    [(''name'', PStr ''Flux.1 Schnell (BF16 - 23.8GB)''),
     (''repo'', PStr ''black-forest-labs/FLUX.1-schnell''),
     (''filename'', PStr ''flux1-schnell.safetensors''),
     (''folder'', PStr ''checkpoints''),
     (''size_gb'', PFloat 238 1),
     (''category'', PStr ''flux'')]),
    (''flux_dev'',
    [(''name'', PStr ''Flux.1 Dev (BF16 - 23.8GB)''),
     (''repo'', PStr ''black-forest-labs/FLUX.1-dev''),
     (''filename'', PStr ''flux1-dev.safetensors''),
     (''folder'', PStr ''checkpoints''),
     (''size_gb'', PFloat 238 1),
     (''category'', PStr ''flux'')]),
    (''flux_schnell_fp8'',
    [(''name'', PStr ''Flux.1 Schnell (FP8 - 11.9GB)''),
     (''repo'', PStr ''Comfy-Org/flux1-schnell''),
     (''filename'', PStr ''flux1-schnell-fp8.safetensors''),
     (''folder'', PStr ''checkpoints''),
     (''size_gb'', PFloat 119 1),
     (''category'', PStr ''flux'')]),
    (''flux_dev_fp8'',
    [(''name'', PStr ''Flux.1 Dev (FP8 - 11.9GB)''),
     (''repo'', PStr ''Comfy-Org/flux1-dev''),
     (''filename'', PStr ''flux1-dev-fp8.safetensors''),
     (''folder'', PStr ''checkpoints''),
     (''size_gb'', PFloat 119 1),
     (''category'', PStr ''flux'')]),
    (''flux_schnell_gguf_q8'',
    [(''name'', PStr ''Flux.1 Schnell GGUF (Q8_0 - 12.9GB)''),
     (''repo'', PStr ''city96/FLUX.1-schnell-gguf''),
     (''filename'', PStr ''flux1-schnell-Q8_0.gguf''),
     (''folder'', PStr ''gguf''),
     (''size_gb'', PFloat 129 1),
     (''category'', PStr ''flux'')]),
    (''flux_schnell_gguf_q5'',
    [(''name'', PStr ''Flux.1 Schnell GGUF (Q5_K_S - 8.5GB)''),
     (''repo'', PStr ''city96/FLUX.1-schnell-gguf''),
     (''filename'', PStr ''flux1-schnell-Q5_K_S.gguf''),
     (''folder'', PStr ''gguf''),
     (''size_gb'', PFloat 85 1),
     (''category'', PStr ''flux'')]),
    (''flux_schnell_gguf_q4'',
    [(''name'', PStr ''Flux.1 Schnell GGUF (Q4_K_S - 7.0GB)''),
     (''repo'', PStr ''city96/FLUX.1-schnell-gguf''),
     (''filename'', PStr ''flux1-schnell-Q4_K_S.gguf''),
     (''folder'', PStr ''gguf''),
     (''size_gb'', PFloat 70 1),
     (''category'', PStr ''flux'')]),
    (''flux_dev_gguf_q8'',
    [(''name'', PStr ''Flux.1 Dev GGUF (Q8_0 - 12.9GB)''),
     (''repo'', PStr ''city96/FLUX.1-dev-gguf''),
     (''filename'', PStr ''flux1-dev-Q8_0.gguf''),
     (''folder'', PStr ''gguf''),
     (''size_gb'', PFloat 129 1),
     (''category'', PStr ''flux'')]),
    (''flux_dev_gguf_q5'',
    [(''name'', PStr ''Flux.1 Dev GGUF (Q5_K_S - 8.5GB)''),
     (''repo'', PStr ''city96/FLUX.1-dev-gguf''),
     (''filename'', PStr ''flux1-dev-Q5_K_S.gguf''),
     (''folder'', PStr ''gguf''),
     (''size_gb'', PFloat 85 1),
     (''category'', PStr ''flux'')]),
    (''flux_dev_gguf_q4'',
    [(''name'', PStr ''Flux.1 Dev GGUF (Q4_K_S - 7.0GB)''),
     (''repo'', PStr ''city96/FLUX.1-dev-gguf''),
     (''filename'', PStr ''flux1-dev-Q4_K_S.gguf''),
     (''folder'', PStr ''gguf''),
     (''size_gb'', PFloat 70 1),
     (''category'', PStr ''flux'')]),
    (''sd3_medium'',
    [(''name'', PStr ''SD3 Medium (4.3GB)''),
     (''repo'', PStr ''stabilityai/stable-diffusion-3-medium''),
     (''filename'', PStr ''sd3_medium.safetensors''),
     (''folder'', PStr ''checkpoints''),
     (''size_gb'', PFloat 434 2),
     (''category'', PStr ''sd3'')]),
    (''sd3_medium_incl_clips'',
    [(''name'', PStr ''SD3 Medium w/ CLIP (5.9GB)''),
     (''repo'', PStr ''stabilityai/stable-diffusion-3-medium''),
     (''filename'', PStr ''sd3_medium_incl_clips.safetensors''),
     (''folder'', PStr ''checkpoints''),
     (''size_gb'', PFloat 594 2),
     (''category'', PStr ''sd3'')]),
    (''sd3_medium_incl_clips_t5'',
    [(''name'', PStr ''SD3 Medium w/ CLIP+T5 (15.7GB)''),
     (''repo'', PStr ''stabilityai/stable-diffusion-3-medium''),
     (''filename'', PStr ''sd3_medium_incl_clips_t5xxlfp16.safetensors''),
     (''folder'', PStr ''checkpoints''),
     (''size_gb'', PFloat 1573 2),
     (''category'', PStr ''sd3'')]),
    (''sd35_medium'',
    [(''name'', PStr ''SD 3.5 Medium (5.4GB)''),
     (''repo'', PStr ''stabilityai/stable-diffusion-3.5-medium''),
     (''filename'', PStr ''sd3.5_medium.safetensors''),
     (''folder'', PStr ''checkpoints''),
     (''size_gb'', PFloat 54 1),
     (''category'', PStr ''sd3'')]),
    (''sd35_large'',
    [(''name'', PStr ''SD 3.5 Large (8.9GB)''),
     (''repo'', PStr ''stabilityai/stable-diffusion-3.5-large''),
     (''filename'', PStr ''sd3.5_large.safetensors''),
     (''folder'', PStr ''checkpoints''),
     (''size_gb'', PFloat 89 1),
     (''category'', PStr ''sd3'')]),
    (''sd35_large_turbo'',
    [(''name'', PStr ''SD 3.5 Large Turbo (8.9GB)''),
     (''repo'', PStr ''stabilityai/stable-diffusion-3.5-large-turbo''),
     (''filename'', PStr ''sd3.5_large_turbo.safetensors''),
     (''folder'', PStr ''checkpoints''),
     (''size_gb'', PFloat 89 1),
     (''category'', PStr ''sd3'')]),
    (''ltx_video'',
    [(''name'', PStr ''LTX Video 2B v0.9.5''),
     (''repo'', PStr ''Lightricks/LTX-Video''),
     (''filename'', PStr ''ltx-video-2b-v0.9.5.safetensors''),
     (''folder'', PStr ''checkpoints''),
     (''size_gb'', PFloat 937 2),
     (''category'', PStr ''video'')]),
    (''svd'',
    [(''name'', PStr ''Stable Video Diffusion''),
     (''repo'', PStr ''stabilityai/stable-video-diffusion-img2vid-xt''),
     (''filename'', PStr ''svd_xt.safetensors''),
     (''folder'', PStr ''checkpoints''),
     (''size_gb'', PFloat 956 2),
     (''category'', PStr ''video'')]),
    (''ltx2_19b_dev'',
    [(''name'', PStr ''LTX-2 19B Dev (Full)''),
     (''repo'', PStr ''Lightricks/LTX-2''),
     (''filename'', PStr ''ltx-2-19b-dev.safetensors''),
     (''folder'', PStr ''checkpoints''),
     (''size_gb'', PFloat 190 1),
     (''category'', PStr ''ltx2'')]),
    (''ltx2_19b_dev_fp8'',
    [(''name'', PStr ''LTX-2 19B Dev (FP8 - 9.5GB)''),
     (''repo'', PStr ''Lightricks/LTX-2''),
     (''filename'', PStr ''ltx-2-19b-dev-fp8.safetensors''),
     (''folder'', PStr ''checkpoints''),
     (''size_gb'', PFloat 95 1),
     (''category'', PStr ''ltx2'')]),
    (''ltx2_19b_distilled'',
    [(''name'', PStr ''LTX-2 19B Distilled (Full)''),
     (''repo'', PStr ''Lightricks/LTX-2''),
     (''filename'', PStr ''ltx-2-19b-distilled.safetensors''),
     (''folder'', PStr ''checkpoints''),
     (''size_gb'', PFloat 190 1),
     (''category'', PStr ''ltx2'')]),
    (''ltx2_19b_distilled_fp8'',
    [(''name'', PStr ''LTX-2 19B Distilled (FP8 - 9.5GB)''),
     (''repo'', PStr ''Lightricks/LTX-2''),
     (''filename'', PStr ''ltx-2-19b-distilled-fp8.safetensors''),
     (''folder'', PStr ''checkpoints''),
     (''size_gb'', PFloat 95 1),
     (''category'', PStr ''ltx2'')]),
    (''ltx2_distilled_lora'',
    [(''name'', PStr ''LTX-2 Distilled LoRA''),
     (''repo'', PStr ''Lightricks/LTX-2''),
     (''filename'', PStr ''ltx-2-19b-distilled-lora-384.safetensors''),
     (''folder'', PStr ''loras''),
     (''size_gb'', PFloat 38 2),
     (''category'', PStr ''ltx2'')]),
    (''ltx2_upscaler'',
    [(''name'', PStr ''LTX-2 Spatial Upscaler x2''),
     (''repo'', PStr ''Lightricks/LTX-2''),
     (''filename'', PStr ''ltx-2-spatial-upscaler-x2-1.0.safetensors''),
     (''folder'', PStr ''latent_upscale_models''),
     (''size_gb'', PFloat 15 2),
     (''category'', PStr ''ltx2'')]),
    (''ltx2_text_encoder'',
    [(''name'', PStr ''LTX-2 Gemma 12B (FP4 Mixed)''),
     (''repo'', PStr ''Comfy-Org/ltx-2''),
     (''filename'', PStr ''split_files/text_encoders/gemma_3_12B_it_fp4_mixed.safetensors''),
     (''folder'', PStr ''text_encoders''),
     (''size_gb'', PFloat 60 1),
     (''category'', PStr ''ltx2'')]),
    (''ltx2_canny_lora'',
    [(''name'', PStr ''LTX-2 Canny Control LoRA''),
     (''repo'', PStr ''Lightricks/LTX-2-19b-IC-LoRA-Canny-Control''),
     (''filename'', PStr ''ltx-2-19b-ic-lora-canny-control.safetensors''),
     (''folder'', PStr ''loras''),
     (''size_gb'', PFloat 38 2),
     (''category'', PStr ''ltx2'')]),
    (''ltx2_depth_lora'',
    [(''name'', PStr ''LTX-2 Depth Control LoRA''),
     (''repo'', PStr ''Lightricks/LTX-2-19b-IC-LoRA-Depth-Control''),
     (''filename'', PStr ''ltx-2-19b-ic-lora-depth-control.safetensors''),
     (''folder'', PStr ''loras''),
     (''size_gb'', PFloat 38 2),
     (''category'', PStr ''ltx2'')]),
    (''flux2_dev_fp8'',
    [(''name'', PStr ''Flux 2 Dev (FP8 Mixed)''),
     (''repo'', PStr ''Comfy-Org/flux2-dev''),
     (''filename'', PStr ''split_files/diffusion_models/flux2_dev_fp8mixed.safetensors''),
     (''folder'', PStr ''diffusion_models''),
     (''size_gb'', PFloat 120 1),
     (''category'', PStr ''flux2'')]),
    (''flux2_vae'',
    [(''name'', PStr ''Flux 2 VAE''),
     (''repo'', PStr ''Comfy-Org/flux2-dev''),
     (''filename'', PStr ''split_files/vae/flux2-vae.safetensors''),
     (''folder'', PStr ''vae''),
     (''size_gb'', PFloat 17 2),
     (''category'', PStr ''flux2'')]),
    (''flux2_text_encoder_fp8'',
    [(''name'', PStr ''Flux 2 Mistral 3 Small (FP8)''),
     (''repo'', PStr ''Comfy-Org/flux2-dev''),
     (''filename'', PStr ''split_files/text_encoders/mistral_3_small_flux2_fp8.safetensors''),
     (''folder'', PStr ''text_encoders''),
     (''size_gb'', PFloat 120 1),
     (''category'', PStr ''flux2'')]),
    (''flux2_text_encoder_bf16'',
    [(''name'', PStr ''Flux 2 Mistral 3 Small (BF16)''),
     (''repo'', PStr ''Comfy-Org/flux2-dev''),
     (''filename'', PStr ''split_files/text_encoders/mistral_3_small_flux2_bf16.safetensors''),
     (''folder'', PStr ''text_encoders''),
     (''size_gb'', PFloat 240 1),
     (''category'', PStr ''flux2'')]),
    (''flux2_turbo_lora'',
    [(''name'', PStr ''Flux 2 Turbo LoRA''),
     (''repo'', PStr ''Comfy-Org/flux2-dev''),
     (''filename'', PStr ''split_files/loras/Flux2TurboComfyv2.safetensors''),
     (''folder'', PStr ''loras''),
     (''size_gb'', PFloat 4 1),
     (''category'', PStr ''flux2'')]),
    (''flux2_klein_4b'',
    [(''name'', PStr ''Flux 2 Klein 4B''),
     (''repo'', PStr ''Comfy-Org/flux2-klein''),
     (''filename'', PStr ''split_files/diffusion_models/flux-2-klein-4b.safetensors''),
     (''folder'', PStr ''diffusion_models''),
     (''size_gb'', PFloat 40 1),
     (''category'', PStr ''flux2'')]),
    (''flux2_klein_4b_fp8'',
    [(''name'', PStr ''Flux 2 Klein 4B (FP8)''),
     (''repo'', PStr ''black-forest-labs/FLUX.2-klein-4b-fp8''),
     (''filename'', PStr ''flux-2-klein-4b-fp8.safetensors''),
     (''folder'', PStr ''checkpoints''),
     (''size_gb'', PFloat 40 1),
     (''category'', PStr ''flux2'')]),
    (''flux2_klein_qwen_text'',
    [(''name'', PStr ''Flux 2 Klein Qwen 3 4B Text Encoder''),
     (''repo'', PStr ''Comfy-Org/flux2-klein''),
     (''filename'', PStr ''split_files/text_encoders/qwen_3_4b.safetensors''),
     (''folder'', PStr ''text_encoders''),
     (''size_gb'', PFloat 40 1),
     (''category'', PStr ''flux2'')]),
    (''qwen_image_fp8'',
    [(''name'', PStr ''Qwen Image 2512 (FP8)''),
     (''repo'', PStr ''Comfy-Org/Qwen-Image_ComfyUI''),
     (''filename'', PStr ''split_files/diffusion_models/qwen_image_2512_fp8_e4m3fn.safetensors''),
     (''folder'', PStr ''diffusion_models''),
     (''size_gb'', PFloat 60 1),
     (''category'', PStr ''qwen'')]),
    (''qwen_image_vae'',
    [(''name'', PStr ''Qwen Image VAE''),
     (''repo'', PStr ''Comfy-Org/Qwen-Image_ComfyUI''),
     (''filename'', PStr ''split_files/vae/qwen_image_vae.safetensors''),
     (''folder'', PStr ''vae''),
     (''size_gb'', PFloat 17 2),
     (''category'', PStr ''qwen'')]),
    (''qwen_image_text_encoder'',
    [(''name'', PStr ''Qwen 2.5 VL 7B (FP8)''),
     (''repo'', PStr ''Comfy-Org/Qwen-Image_ComfyUI''),
     (''filename'', PStr ''split_files/text_encoders/qwen_2.5_vl_7b_fp8_scaled.safetensors''),
     (''folder'', PStr ''text_encoders''),
     (''size_gb'', PFloat 75 1),
     (''category'', PStr ''qwen'')]),
    (''qwen_image_edit_fp8'',
    [(''name'', PStr ''Qwen Image Edit 2511 (FP8)''),
     (''repo'', PStr ''Comfy-Org/Qwen-Image-Edit_ComfyUI''),
     (''filename'', PStr ''split_files/diffusion_models/qwen_image_edit_fp8_e4m3fn.safetensors''),
     (''folder'', PStr ''diffusion_models''),
     (''size_gb'', PFloat 60 1),
     (''category'', PStr ''qwen'')]),
    (''qwen_image_edit_bf16'',
    [(''name'', PStr ''Qwen Image Edit 2511 (BF16)''),
     (''repo'', PStr ''Comfy-Org/Qwen-Image-Edit_ComfyUI''),
     (''filename'', PStr ''split_files/diffusion_models/qwen_image_edit_2511_bf16.safetensors''),
     (''folder'', PStr ''diffusion_models''),
     (''size_gb'', PFloat 120 1),
     (''category'', PStr ''qwen'')]),
    (''qwen_image_lightning_4step'',
    [(''name'', PStr ''Qwen Image Lightning (4-step)''),
     (''repo'', PStr ''lightx2v/Qwen-Image-Lightning''),
     (''filename'', PStr ''Qwen-Image-Lightning-4steps-V1.0.safetensors''),
     (''folder'', PStr ''loras''),
     (''size_gb'', PFloat 8 1),
     (''category'', PStr ''qwen'')]),
    (''qwen_image_controlnet_union'',
    [(''name'', PStr ''Qwen Image ControlNet Union''),
     (''repo'', PStr ''Comfy-Org/Qwen-Image-InstantX-ControlNets''),
     (''filename'', PStr ''split_files/controlnet/Qwen-Image-InstantX-ControlNet-Union.safetensors''),
     (''folder'', PStr ''controlnet''),
     (''size_gb'', PFloat 15 1),
     (''category'', PStr ''qwen'')]),
    (''hunyuan_video_15_i2v'',
    [(''name'', PStr ''HunyuanVideo 1.5 720p I2V (FP16)''),
     (''repo'', PStr ''Comfy-Org/HunyuanVideo_1.5_repackaged''),
     (''filename'', PStr ''split_files/diffusion_models/hunyuanvideo1.5_720p_i2v_fp16.safetensors''),
     (''folder'', PStr ''diffusion_models''),
     (''size_gb'', PFloat 120 1),
     (''category'', PStr ''hunyuan'')]),
    (''hunyuan_video_15_vae'',
    [(''name'', PStr ''HunyuanVideo 1.5 VAE (FP16)''),
     (''repo'', PStr ''Comfy-Org/HunyuanVideo_1.5_repackaged''),
     (''filename'', PStr ''split_files/vae/hunyuanvideo15_vae_fp16.safetensors''),
     (''folder'', PStr ''vae''),
     (''size_gb'', PFloat 5 1),
     (''category'', PStr ''hunyuan'')]),
    (''hunyuan_video_15_upscaler'',
    [(''name'', PStr ''HunyuanVideo 1.5 1080p Upscaler''),
     (''repo'', PStr ''Comfy-Org/HunyuanVideo_1.5_repackaged''),
     (''filename'', PStr ''split_files/diffusion_models/hunyuanvideo1.5_1080p_sr_distilled_fp16.safetensors''),
     (''folder'', PStr ''diffusion_models''),
     (''size_gb'', PFloat 30 1),
     (''category'', PStr ''hunyuan'')]),
    (''hunyuan_video_text_encoder'',
    [(''name'', PStr ''Qwen 2.5 VL 7B (FP8) - for HunyuanVideo''),
     (''repo'', PStr ''Comfy-Org/HunyuanVideo_1.5_repackaged''),
     (''filename'', PStr ''split_files/text_encoders/qwen_2.5_vl_7b_fp8_scaled.safetensors''),
     (''folder'', PStr ''text_encoders''),
     (''size_gb'', PFloat 75 1),
     (''category'', PStr ''hunyuan'')]),
    (''wan21_i2v_14b_fp8'',
    [(''name'', PStr ''Wan 2.1 I2V 14B 480p (FP8)''),
     (''repo'', PStr ''Kijai/WanVideo_comfy_fp8_scaled''),
     (''filename'', PStr ''I2V/Wan2_1-I2V-14B-480p_fp8_e4m3fn_scaled_KJ.safetensors''),
     (''folder'', PStr ''diffusion_models''),
     (''size_gb'', PFloat 140 1),
     (''category'', PStr ''wan'')]),
    (''wan21_vae'',
    [(''name'', PStr ''Wan 2.1 VAE (BF16)''),
     (''repo'', PStr ''Kijai/WanVideo_comfy''),
     (''filename'', PStr ''Wan2_1_VAE_bf16.safetensors''),
     (''folder'', PStr ''vae''),
     (''size_gb'', PFloat 5 1),
     (''category'', PStr ''wan'')]),
    (''wan21_text_encoder'',
    [(''name'', PStr ''UMT5-XXL (FP8) - for Wan''),
     (''repo'', PStr ''Comfy-Org/Wan_2.1_ComfyUI_repackaged''),
     (''filename'', PStr ''split_files/text_encoders/umt5_xxl_fp8_e4m3fn_scaled.safetensors''),
     (''folder'', PStr ''text_encoders''),
     (''size_gb'', PFloat 50 1),
     (''category'', PStr ''wan'')]),
    (''z_image_turbo'',
    [(''name'', PStr ''Z-Image Turbo (BF16)''),
     (''repo'', PStr ''Comfy-Org/z_image_turbo''),
     (''filename'', PStr ''split_files/diffusion_models/z_image_turbo_bf16.safetensors''),
     (''folder'', PStr ''diffusion_models''),
     (''size_gb'', PFloat 45 1),
     (''category'', PStr ''z_image'')]),
    (''z_image_turbo_vae'',
    [(''name'', PStr ''Z-Image Turbo VAE''),
     (''repo'', PStr ''Comfy-Org/z_image_turbo''),
     (''filename'', PStr ''split_files/vae/ae.safetensors''),
     (''folder'', PStr ''vae''),
     (''size_gb'', PFloat 17 2),
     (''category'', PStr ''z_image'')]),
    (''z_image_turbo_text_encoder'',
    [(''name'', PStr ''Qwen 3 4B Text Encoder (for Z-Image)''),
     (''repo'', PStr ''Comfy-Org/z_image_turbo''),
     (''filename'', PStr ''split_files/text_encoders/qwen_3_4b.safetensors''),
     (''folder'', PStr ''text_encoders''),
     (''size_gb'', PFloat 40 1),
     (''category'', PStr ''z_image'')]),
    (''z_image_turbo_controlnet'',
    [(''name'', PStr ''Z-Image Turbo ControlNet Union''),
     (''repo'', PStr ''alibaba-pai/Z-Image-Turbo-Fun-Controlnet-Union''),
     (''filename'', PStr ''Z-Image-Turbo-Fun-Controlnet-Union.safetensors''),
     (''folder'', PStr ''controlnet''),
     (''size_gb'', PFloat 15 1),
     (''category'', PStr ''z_image'')]),
    (''hidream_i1_fp8'',
    [(''name'', PStr ''HiDream I1 Full (FP8)''),
     (''repo'', PStr ''Comfy-Org/HiDream-I1_ComfyUI''),
     (''filename'', PStr ''split_files/diffusion_models/hidream_i1_full_fp8.safetensors''),
     (''folder'', PStr ''diffusion_models''),
     (''size_gb'', PFloat 80 1),
     (''category'', PStr ''hidream'')]),
    (''hidream_e1_bf16'',
    [(''name'', PStr ''HiDream E1 Full (BF16)''),
     (''repo'', PStr ''Comfy-Org/HiDream-I1_ComfyUI''),
     (''filename'', PStr ''split_files/diffusion_models/hidream_e1_full_bf16.safetensors''),
     (''folder'', PStr ''diffusion_models''),
     (''size_gb'', PFloat 160 1),
     (''category'', PStr ''hidream'')]),
    (''hidream_clip_l'',
    [(''name'', PStr ''HiDream CLIP-L''),
     (''repo'', PStr ''Comfy-Org/HiDream-I1_ComfyUI''),
     (''filename'', PStr ''split_files/text_encoders/clip_l_hidream.safetensors''),
     (''folder'', PStr ''text_encoders''),
     (''size_gb'', PFloat 25 2),
     (''category'', PStr ''hidream'')]),
    (''hidream_clip_g'',
    [(''name'', PStr ''HiDream CLIP-G''),
     (''repo'', PStr ''Comfy-Org/HiDream-I1_ComfyUI''),
     (''filename'', PStr ''split_files/text_encoders/clip_g_hidream.safetensors''),
     (''folder'', PStr ''text_encoders''),
     (''size_gb'', PFloat 14 1),
     (''category'', PStr ''hidream'')]),
    (''kandinsky5_t2v'',
    [(''name'', PStr ''Kandinsky 5 Lite T2V 5s''),
     (''repo'', PStr ''kandinskylab/Kandinsky-5.0-T2V-Lite-sft-5s''),
     (''filename'', PStr ''model/kandinsky5lite_t2v_sft_5s.safetensors''),
     (''folder'', PStr ''diffusion_models''),
     (''size_gb'', PFloat 50 1),
     (''category'', PStr ''kandinsky'')]),
    (''kandinsky5_i2v'',
    [(''name'', PStr ''Kandinsky 5 Lite I2V 5s''),
     (''repo'', PStr ''kandinskylab/Kandinsky-5.0-I2V-Lite-5s''),
     (''filename'', PStr ''model/kandinsky5lite_i2v_5s.safetensors''),
     (''folder'', PStr ''diffusion_models''),
     (''size_gb'', PFloat 50 1),
     (''category'', PStr ''kandinsky'')]),
    (''chroma_hd_fp8'',
    [(''name'', PStr ''Chroma 1 HD (FP8 Mixed)''),
     (''repo'', PStr ''Comfy-Org/Chroma1-HD_repackaged''),
     (''filename'', PStr ''split_files/diffusion_models/Chroma1-HD-fp8mixed.safetensors''),
     (''folder'', PStr ''diffusion_models''),
     (''size_gb'', PFloat 60 1),
     (''category'', PStr ''chroma'')]),
    (''chroma_radiance'',
    [(''name'', PStr ''Chroma 1 Radiance''),
     (''repo'', PStr ''Comfy-Org/Chroma1-Radiance_Repackaged''),
     (''filename'', PStr ''split_files/diffusion_models/chroma-radiance-x0.safetensors''),
     (''folder'', PStr ''diffusion_models''),
     (''size_gb'', PFloat 120 1),
     (''category'', PStr ''chroma'')]),
    (''sdxl_vae'',
    [(''name'', PStr ''SDXL VAE (335MB)''),
     (''repo'', PStr ''stabilityai/sdxl-vae''),
     (''filename'', PStr ''sdxl_vae.safetensors''),
     (''folder'', PStr ''vae''),
     (''size_gb'', PFloat 33 2),
     (''category'', PStr ''sdxl'')]),
    (''sdxl_vae_fp16'',
    [(''name'', PStr ''SDXL VAE FP16 Fix (335MB)''),
     (''repo'', PStr ''madebyollin/sdxl-vae-fp16-fix''),
     (''filename'', PStr ''sdxl_vae.safetensors''),
     (''folder'', PStr ''vae''),
     (''size_gb'', PFloat 33 2),
     (''category'', PStr ''sdxl'')]),
    (''sd_vae_ft_mse'',
    [(''name'', PStr ''SD VAE ft-mse (335MB)''),
     (''repo'', PStr ''stabilityai/sd-vae-ft-mse''),
     (''filename'', PStr ''diffusion_pytorch_model.safetensors''),
     (''folder'', PStr ''vae''),
     (''size_gb'', PFloat 33 2),
     (''category'', PStr ''sd15'')]),
    (''sd_vae_ft_ema'',
    [(''name'', PStr ''SD VAE ft-ema (335MB)''),
     (''repo'', PStr ''stabilityai/sd-vae-ft-ema''),
     (''filename'', PStr ''diffusion_pytorch_model.safetensors''),
     (''folder'', PStr ''vae''),
     (''size_gb'', PFloat 33 2),
     (''category'', PStr ''sd15'')]),
    (''flux_vae'',
    [(''name'', PStr ''Flux VAE (168MB)''),
     (''repo'', PStr ''black-forest-labs/FLUX.1-schnell''),
     (''filename'', PStr ''ae.safetensors''),
     (''folder'', PStr ''vae''),
     (''size_gb'', PFloat 168 3),
     (''category'', PStr ''flux'')]),
    (''clip_vit_l'',
    [(''name'', PStr ''CLIP ViT-L/14 (SD1.5/SDXL)''),
     (''repo'', PStr ''openai/clip-vit-large-patch14''),
     (''filename'', PStr ''model.safetensors''),
     (''folder'', PStr ''clip''),
     (''size_gb'', PFloat 89 2),
     (''category'', PStr ''clip'')]),
    (''clip_vit_h'',
    [(''name'', PStr ''CLIP ViT-H/14 (SDXL)''),
     (''repo'', PStr ''laion/CLIP-ViT-H-14-laion2B-s32B-b79K''),
     (''filename'', PStr ''open_clip_pytorch_model.safetensors''),
     (''folder'', PStr ''clip''),
     (''size_gb'', PFloat 394 2),
     (''category'', PStr ''clip'')]),
    (''flux_clip_l'',
    [(''name'', PStr ''Flux CLIP-L Text Encoder''),
     (''repo'', PStr ''comfyanonymous/flux_text_encoders''),
     (''filename'', PStr ''clip_l.safetensors''),
     (''folder'', PStr ''clip''),
     (''size_gb'', PFloat 25 2),
     (''category'', PStr ''flux'')]),
    (''flux_t5xxl'',
    [(''name'', PStr ''Flux T5-XXL Text Encoder (FP16 - 9.8GB)''),
     (''repo'', PStr ''comfyanonymous/flux_text_encoders''),
     (''filename'', PStr ''t5xxl_fp16.safetensors''),
     (''folder'', PStr ''clip''),
     (''size_gb'', PFloat 979 2),
     (''category'', PStr ''flux'')]),
    (''flux_t5xxl_fp8'',
    [(''name'', PStr ''Flux T5-XXL Text Encoder (FP8 - 4.9GB)''),
     (''repo'', PStr ''comfyanonymous/flux_text_encoders''),
     (''filename'', PStr ''t5xxl_fp8_e4m3fn.safetensors''),
     (''folder'', PStr ''clip''),
     (''size_gb'', PFloat 489 2),
     (''category'', PStr ''flux'')]),
    (''flux_t5xxl_gguf_q8'',
    [(''name'', PStr ''Flux T5-XXL GGUF (Q8_0 - 5.2GB)''),
     (''repo'', PStr ''city96/t5-v1_1-xxl-encoder-gguf''),
     (''filename'', PStr ''t5-v1_1-xxl-encoder-Q8_0.gguf''),
     (''folder'', PStr ''clip''),
     (''size_gb'', PFloat 52 1),
     (''category'', PStr ''flux'')]),
    (''flux_t5xxl_gguf_q4'',
    [(''name'', PStr ''Flux T5-XXL GGUF (Q4_K_S - 2.8GB)''),
     (''repo'', PStr ''city96/t5-v1_1-xxl-encoder-gguf''),
     (''filename'', PStr ''t5-v1_1-xxl-encoder-Q4_K_S.gguf''),
     (''folder'', PStr ''clip''),
     (''size_gb'', PFloat 28 1),
     (''category'', PStr ''flux'')]),
    (''sd3_clip_g'',
    [(''name'', PStr ''SD3 CLIP-G Text Encoder''),
     (''repo'', PStr ''stabilityai/stable-diffusion-3-medium''),
     (''filename'', PStr ''text_encoders/clip_g.safetensors''),
     (''subfolder'', PStr ''text_encoders''),
     (''folder'', PStr ''clip''),
     (''size_gb'', PFloat 139 2),
     (''category'', PStr ''sd3'')]),
    (''sd3_clip_l'',
    [(''name'', PStr ''SD3 CLIP-L Text Encoder''),
     (''repo'', PStr ''stabilityai/stable-diffusion-3-medium''),
     (''filename'', PStr ''text_encoders/clip_l.safetensors''),
     (''subfolder'', PStr ''text_encoders''),
     (''folder'', PStr ''clip''),
     (''size_gb'', PFloat 25 2),
     (''category'', PStr ''sd3'')]),
    (''sd3_t5xxl'',
    [(''name'', PStr ''SD3 T5-XXL Text Encoder (FP16)''),
     (''repo'', PStr ''stabilityai/stable-diffusion-3-medium''),
     (''filename'', PStr ''text_encoders/t5xxl_fp16.safetensors''),
     (''subfolder'', PStr ''text_encoders''),
     (''folder'', PStr ''clip''),
     (''size_gb'', PFloat 979 2),
     (''category'', PStr ''sd3'')]),
    (''controlnet_canny_sd15'',
    [(''name'', PStr ''ControlNet Canny (SD1.5)''),
     (''repo'', PStr ''lllyasviel/control_v11p_sd15_canny''),
     (''filename'', PStr ''diffusion_pytorch_model.safetensors''),
     (''folder'', PStr ''controlnet''),
     (''size_gb'', PFloat 145 2),
     (''category'', PStr ''sd15'')]),
    (''controlnet_depth_sd15'',
    [(''name'', PStr ''ControlNet Depth (SD1.5)''),
     (''repo'', PStr ''lllyasviel/control_v11f1p_sd15_depth''),
     (''filename'', PStr ''diffusion_pytorch_model.safetensors''),
     (''folder'', PStr ''controlnet''),
     (''size_gb'', PFloat 145 2),
     (''category'', PStr ''sd15'')]),
    (''controlnet_openpose_sd15'',
    [(''name'', PStr ''ControlNet OpenPose (SD1.5)''),
     (''repo'', PStr ''lllyasviel/control_v11p_sd15_openpose''),
     (''filename'', PStr ''diffusion_pytorch_model.safetensors''),
     (''folder'', PStr ''controlnet''),
     (''size_gb'', PFloat 145 2),
     (''category'', PStr ''sd15'')]),
    (''controlnet_canny_sdxl'',
    [(''name'', PStr ''ControlNet Canny (SDXL)''),
     (''repo'', PStr ''diffusers/controlnet-canny-sdxl-1.0''),
     (''filename'', PStr ''diffusion_pytorch_model.safetensors''),
     (''folder'', PStr ''controlnet''),
     (''size_gb'', PFloat 250 2),
     (''category'', PStr ''sdxl'')]),
    (''controlnet_depth_sdxl'',
    [(''name'', PStr ''ControlNet Depth (SDXL)''),
     (''repo'', PStr ''diffusers/controlnet-depth-sdxl-1.0''),
     (''filename'', PStr ''diffusion_pytorch_model.safetensors''),
     (''folder'', PStr ''controlnet''),
     (''size_gb'', PFloat 250 2),
     (''category'', PStr ''sdxl'')]),
    (''realesrgan_x4'',
    [(''name'', PStr ''RealESRGAN x4plus''),
     (''repo'', PStr ''ai-forever/Real-ESRGAN''),
     (''filename'', PStr ''RealESRGAN_x4.pth''),
     (''folder'', PStr ''upscale_models''),
     (''size_gb'', PFloat 64 3),
     (''category'', PStr ''upscale'')]),
    (''4x_ultrasharp'',
    [(''name'', PStr ''4x UltraSharp''),
     (''url'', PStr ''https://huggingface.co/Kim2091/UltraSharp/resolve/main/4x-UltraSharp.pth''),
     (''filename'', PStr ''4x-UltraSharp.pth''),
     (''folder'', PStr ''upscale_models''),
     (''size_gb'', PFloat 67 3),
     (''category'', PStr ''upscale'')]),
    (''clip_vision_vit_h'',
    [(''name'', PStr ''CLIP Vision ViT-H''),
     (''repo'', PStr ''h94/IP-Adapter''),
     (''filename'', PStr ''models/image_encoder/model.safetensors''),
     (''subfolder'', PStr ''models/image_encoder''),
     (''folder'', PStr ''clip_vision''),
     (''size_gb'', PFloat 253 2),
     (''category'', PStr ''ipadapter'')]),
    (''easynegative'',
    [(''name'', PStr ''EasyNegative''),
     (''repo'', PStr ''gsdf/EasyNegative''),
     (''filename'', PStr ''EasyNegative.safetensors''),
     (''folder'', PStr ''embeddings''),
     (''size_gb'', PFloat 24 3),
     (''category'', PStr ''embedding'')]),
    (''badhandv4'',
    [(''name'', PStr ''BadHand v4''),
     (''url'', PStr ''https://civitai.com/api/download/models/20068''),
     (''filename'', PStr ''badhandv4.pt''),
     (''folder'', PStr ''embeddings''),
     (''size_gb'', PFloat 35 3),
     (''category'', PStr ''embedding'')])]"

text \<open>\<open>d[k] = v\<close>: the value is replaced in place, or the item is added at the end.\<close>

fun dict_set :: "(string \<times> pyval) list \<Rightarrow> string \<Rightarrow> pyval \<Rightarrow> (string \<times> pyval) list" where
  "dict_set [] k v = [(k, v)]"
| "dict_set ((k', v') # d) k v = (if k' = k then (k, v) # d else (k', v') # dict_set d k v)"

text \<open>
  \<open>[{**info, "id": model_id} for model_id, info in MODELS.items() if info.get("folder") == category]\<close>
\<close>

definition list_available_models :: "string \<Rightarrow> (string \<times> pyval) list list" where
  "list_available_models category =
     map (\<lambda>(model_id, info). dict_set info ''id'' (PStr model_id))
       (filter (\<lambda>(model_id, info). map_of info ''folder'' = Some (PStr category)) MODELS)"

section \<open>Downloading files\<close>


text \<open>\<open>int(response.headers.get("Content-Length", 0))\<close>.\<close>

definition total_size_of :: "response \<Rightarrow> (int, 'w) prog" where
  "total_size_of resp = (case content_length resp of
       None \<Rightarrow> ret 0
     | Some (Inl e) \<Rightarrow> raise e
     | Some (Inr n) \<Rightarrow> ret n)"

definition url_open :: "'w os \<Rightarrow> string \<Rightarrow> (response, 'w) prog" where
  "url_open os url = (\<lambda>(w, t). case urlopen os url w of (r, w') \<Rightarrow> (r, (w', t @ [UrlOpen url])))"


definition MB :: int where
  "MB = 1024 * 1024"

text \<open>
  The read loop of \<open>_download_file\<close>, which \<open>GitManager\<close>, \<open>FfmpegManager\<close> and
  \<open>PythonManager\<close> each have a copy of; the copies differ in the factor of the percentage
  (75, 70, 45) and in the name inside the message. \<open>response.read\<close> returns the next chunk,
  an empty chunk at the end of the stream, or raises.
\<close>

fun read_loop ::
  "'w os \<Rightarrow> bool \<Rightarrow> int \<Rightarrow> string \<Rightarrow> path \<Rightarrow> int \<Rightarrow> exn option \<Rightarrow> nat list \<Rightarrow> int \<Rightarrow> (unit, 'w) prog" where
  "read_loop os cb factor what dest total_size err [] downloaded =
     (case err of None \<Rightarrow> ret () | Some e \<Rightarrow> raise e)"
| "read_loop os cb factor what dest total_size err (chunk # rest) downloaded =
     (if chunk = 0 then ret ()
      else seq (act os (WriteChunk dest chunk))
           (seq (if cb \<and> total_size > 0
                 then emit (Progress (py_scale (downloaded + int chunk) total_size factor + 5) 100
                        (''Downloading '' @ what @ ''... '' @ str_int ((downloaded + int chunk) div MB)
                         @ ''/'' @ str_int (total_size div MB) @ '' MB''))
                 else ret ())
           (read_loop os cb factor what dest total_size err rest (downloaded + int chunk))))"

definition download_file ::
  "'w os \<Rightarrow> int \<Rightarrow> string \<Rightarrow> string \<Rightarrow> path \<Rightarrow> bool \<Rightarrow> (unit, 'w) prog" where
  "download_file os factor what url dest cb =
     bind (url_open os url) (\<lambda>resp.
     bind (total_size_of resp) (\<lambda>total_size.
     seq (act os (OpenWB dest))
     (read_loop os cb factor what dest total_size (read_error resp) (chunks resp) 0)))"

text \<open>\<open>GitManager._download_file\<close>, \<open>FfmpegManager._download_file\<close>, \<open>PythonManager._download_file\<close>.\<close>

definition git_download_file :: "'w os \<Rightarrow> string \<Rightarrow> path \<Rightarrow> bool \<Rightarrow> (unit, 'w) prog" where
  "git_download_file os url dest cb = download_file os 75 ''Git'' url dest cb"

definition ffmpeg_download_file :: "'w os \<Rightarrow> string \<Rightarrow> path \<Rightarrow> bool \<Rightarrow> (unit, 'w) prog" where
  "ffmpeg_download_file os url dest cb = download_file os 70 ''FFmpeg'' url dest cb"

definition python_download_file :: "'w os \<Rightarrow> string \<Rightarrow> path \<Rightarrow> bool \<Rightarrow> (unit, 'w) prog" where
  "python_download_file os url dest cb = download_file os 45 ''Python'' url dest cb"

section \<open>ModelDownloader: downloads\<close>













section \<open>GitManager: setup\<close>

definition GIT_VERSION :: string where
  "GIT_VERSION = ''2.47.1''"

definition MINGIT_URL :: string where
  "MINGIT_URL = ''https://github.com/git-for-windows/git/releases/download/'' @ ''v'' @ GIT_VERSION
     @ ''.windows.1/MinGit-'' @ GIT_VERSION @ ''-64-bit.zip''"

text \<open>
  \<open>ensure_..._in_path\<close> of \<open>GitManager\<close> and \<open>FfmpegManager\<close>: the directory is put in
  front of \<open>PATH\<close> unless \<open>PATH\<close> contains it.
\<close>

definition prepend_to_path :: "'w os \<Rightarrow> string \<Rightarrow> (unit, 'w) prog" where
  "prepend_to_path os dir =
     bind (observe (\<lambda>w. case getenv os ''PATH'' w of None \<Rightarrow> [] | Some v \<Rightarrow> v)) (\<lambda>current_path.
       if \<not> is_substring dir current_path
       then act os (SetEnv ''PATH'' (dir @ pathsep os @ current_path))
       else ret ())"

definition ensure_git_in_path :: "'w os \<Rightarrow> GitManager \<Rightarrow> (unit, 'w) prog" where
  "ensure_git_in_path os self =
     bind (observe (git_is_installed os self)) (\<lambda>installed.
       if installed then prepend_to_path os (path_str (joinpath (git_dir self) ''cmd''))
       else ret ())"

definition git_download_and_setup :: "'w os \<Rightarrow> GitManager \<Rightarrow> bool \<Rightarrow> (bool, 'w) prog" where
  "git_download_and_setup os self cb =
     bind (observe (git_is_installed os self)) (\<lambda>installed.
       if installed
       then seq (report cb 100 100 ''Portable Git already installed'') (ret True)
       else try_except
         (seq (report cb 0 100 (''Downloading MinGit '' @ GIT_VERSION @ ''...''))
         (let zip_path = joinpath (base_dir self) ''git_portable.zip''
          in seq (git_download_file os MINGIT_URL zip_path cb)
            (seq (report cb 80 100 ''Extracting Git...'')
            (seq (act os (Mkdir (git_dir self)))
            (seq (act os (ExtractAll zip_path (git_dir self)))
            (seq (act os (Unlink zip_path))
            (seq (ensure_git_in_path os self)
            (seq (report cb 100 100 ''Portable Git ready'')
            (ret True)))))))))
         (\<lambda>e. seq (report cb 0 100 (''Git download failed: '' @ msg e)) (ret False)))"

section \<open>FfmpegManager\<close>

record FfmpegManager =
  ffmpeg_base_dir :: path
  ffmpeg_dir :: path
  ffmpeg_exe :: path
  ffprobe_exe :: path

definition FFMPEG_URL :: string where
  "FFMPEG_URL = ''https://www.gyan.dev/ffmpeg/builds/ffmpeg-release-essentials.zip''"

definition FFMPEG_DIR_NAME :: string where
  "FFMPEG_DIR_NAME = ''ffmpeg_portable''"

definition FfmpegManager_init :: "path \<Rightarrow> FfmpegManager" where
  "FfmpegManager_init bd =
     \<lparr> ffmpeg_base_dir = bd,
       ffmpeg_dir = joinpath bd FFMPEG_DIR_NAME,
       ffmpeg_exe = joinpath (joinpath (joinpath bd FFMPEG_DIR_NAME) ''bin'') ''ffmpeg.exe'',
       ffprobe_exe = joinpath (joinpath (joinpath bd FFMPEG_DIR_NAME) ''bin'') ''ffprobe.exe'' \<rparr>"

definition ffmpeg_is_installed :: "'w os \<Rightarrow> FfmpegManager \<Rightarrow> 'w \<Rightarrow> bool" where
  "ffmpeg_is_installed os self w = path_exists os (ffmpeg_exe self) w"

definition ensure_ffmpeg_in_path :: "'w os \<Rightarrow> FfmpegManager \<Rightarrow> (unit, 'w) prog" where
  "ensure_ffmpeg_in_path os self =
     bind (observe (ffmpeg_is_installed os self)) (\<lambda>installed.
       if installed then prepend_to_path os (path_str (joinpath (ffmpeg_dir self) ''bin''))
       else ret ())"

text \<open>\<open>shutil.rmtree(p, ignore_errors=True)\<close> raises nothing.\<close>

definition rmtree_ignore_errors :: "'w os \<Rightarrow> path \<Rightarrow> (unit, 'w) prog" where
  "rmtree_ignore_errors os p = try_except (act os (Rmtree p True)) (\<lambda>e. ret ())"

definition ffmpeg_download_and_setup :: "'w os \<Rightarrow> FfmpegManager \<Rightarrow> bool \<Rightarrow> (bool, 'w) prog" where
  "ffmpeg_download_and_setup os self cb =
     bind (observe (ffmpeg_is_installed os self)) (\<lambda>installed.
       if installed
       then seq (report cb 100 100 ''Portable FFmpeg already installed'') (ret True)
       else try_except
         (seq (report cb 0 100 ''Downloading FFmpeg...'')
         (let zip_path = joinpath (ffmpeg_base_dir self) ''ffmpeg_portable.zip'';
              temp_dir = joinpath (ffmpeg_base_dir self) ''_ffmpeg_temp''
          in seq (ffmpeg_download_file os FFMPEG_URL zip_path cb)
            (seq (report cb 75 100 ''Extracting FFmpeg...'')
            (seq (act os (Mkdir temp_dir))
            (seq (act os (ExtractAll zip_path temp_dir))
            (bind (observe (\<lambda>w. filter (\<lambda>d. is_dir os d w) (listing os temp_dir ''*'' False w))) (\<lambda>inner_dirs.
               case inner_dirs of
                 [] \<Rightarrow> raise (Exn RuntimeError ''FFmpeg zip has unexpected structure (no inner directory)'')
               | inner_dir # _ \<Rightarrow>
                   seq (act os (Mkdir (ffmpeg_dir self)))
                  (let bin_src = joinpath inner_dir ''bin'';
                       bin_dest = joinpath (ffmpeg_dir self) ''bin''
                   in bind (observe (path_exists os bin_src)) (\<lambda>src_exists.
                      seq (if src_exists
                           then seq (bind (observe (path_exists os bin_dest)) (\<lambda>dest_exists.
                                       if dest_exists then act os (Rmtree bin_dest False) else ret ()))
                                    (act os (Move bin_src bin_dest))
                           else raise (Exn RuntimeError ''FFmpeg zip missing bin/ directory''))
                     (seq (rmtree_ignore_errors os temp_dir)
                     (seq (act os (Unlink zip_path))
                     (seq (ensure_ffmpeg_in_path os self)
                     (seq (report cb 100 100 ''Portable FFmpeg ready'')
                     (ret True))))))))))))))
         (\<lambda>e. let temp_dir = joinpath (ffmpeg_base_dir self) ''_ffmpeg_temp'';
                  zip_path = joinpath (ffmpeg_base_dir self) ''ffmpeg_portable.zip''
              in seq (bind (observe (path_exists os temp_dir)) (\<lambda>temp_exists.
                        if temp_exists then rmtree_ignore_errors os temp_dir else ret ()))
                (seq (act os (Unlink zip_path))
                (seq (report cb 0 100 (''FFmpeg download failed: '' @ msg e))
                (ret False)))))"

section \<open>PythonManager\<close>

record PythonManager =
  python_base_dir :: path
  python_dir :: path
  python_exe :: path
  site_packages :: path

definition PYTHON_VERSION :: string where
  "PYTHON_VERSION = ''3.12.8''"

definition PYTHON_URL :: string where
  "PYTHON_URL = ''https://www.python.org/ftp/python/'' @ PYTHON_VERSION @ ''/python-'' @ PYTHON_VERSION
     @ ''-embed-amd64.zip''"

definition PYTHON_DIR_NAME :: string where
  "PYTHON_DIR_NAME = ''python_embedded''"

definition PythonManager_init :: "path \<Rightarrow> PythonManager" where
  "PythonManager_init bd =
     \<lparr> python_base_dir = bd,
       python_dir = joinpath bd PYTHON_DIR_NAME,
       python_exe = joinpath (joinpath bd PYTHON_DIR_NAME) ''python.exe'',
       site_packages = joinpath (joinpath (joinpath bd PYTHON_DIR_NAME) ''Lib'') ''site-packages'' \<rparr>"

definition python_is_installed :: "'w os \<Rightarrow> PythonManager \<Rightarrow> 'w \<Rightarrow> bool" where
  "python_is_installed os self w =
     (path_exists os (python_exe self) w \<and> path_exists os (site_packages self) w)"

text \<open>The property \<open>has_pip\<close> spawns the interpreter; nothing around the call catches.\<close>

definition has_pip :: "'w os \<Rightarrow> PythonManager \<Rightarrow> (bool, 'w) prog" where
  "has_pip os self =
     bind (observe (path_exists os (python_exe self))) (\<lambda>exe_exists.
       if \<not> exe_exists then ret False
       else bind (run os [path_str (python_exe self), ''-m'', ''pip'', ''--version''] None) (\<lambda>result.
              ret (returncode result = 0)))"

definition pth_file :: "'w os \<Rightarrow> PythonManager \<Rightarrow> 'w \<Rightarrow> path option" where
  "pth_file os self w =
     (case listing os (python_dir self) ''python*._pth'' False w of [] \<Rightarrow> None | f # _ \<Rightarrow> Some f)"

definition configure_pth :: "'w os \<Rightarrow> PythonManager \<Rightarrow> (unit, 'w) prog" where
  "configure_pth os self =
     bind (observe (pth_file os self)) (\<lambda>pth.
       case pth of
         None \<Rightarrow> raise (Exn FileNotFoundError ''Could not find python*._pth file in embedded Python'')
       | Some pth \<Rightarrow>
           bind (observe (\<lambda>w. case listing os (python_dir self) ''python*.zip'' False w of
                                [] \<Rightarrow> ''python312.zip'' | f # _ \<Rightarrow> path_name f)) (\<lambda>zip_name.
             act os (WriteText pth
               (join [CHR 0x0A] [zip_name, ''.'', ''Lib'', ''Lib'' @ [CHR 0x5C] @ ''site-packages'', '''', ''import site'']))))"

definition bootstrap_pip :: "'w os \<Rightarrow> PythonManager \<Rightarrow> bool \<Rightarrow> (unit, 'w) prog" where
  "bootstrap_pip os self cb =
     (let get_pip_path = joinpath (python_dir self) ''get-pip.py''
      in seq (report cb 78 100 ''Downloading get-pip.py...'')
        (seq (bind (url_open os ''https://bootstrap.pypa.io/get-pip.py'') (\<lambda>resp.
                case read_error resp of
                  Some e \<Rightarrow> raise e
                | None \<Rightarrow> act os (WriteBytes get_pip_path (sum_list (chunks resp)))))
        (seq (report cb 82 100 ''Installing pip...'')
        (bind (run os [path_str (python_exe self), path_str get_pip_path] None) (\<lambda>result.
         seq (if returncode result \<noteq> 0
              then raise (Exn RuntimeError (''get-pip.py failed: '' @ stderr result))
              else ret ())
        (seq (act os (Unlink get_pip_path))
        (seq (report cb 88 100 ''Upgrading pip...'')
        (bind (run os [path_str (python_exe self), ''-m'', ''pip'', ''install'', ''--upgrade'', ''pip''] None)
           (\<lambda>_. ret ())))))))))"

text \<open>
  \<open>PythonManager.download_and_setup\<close>. The guard \<open>self.is_installed and self.has_pip\<close>
  is evaluated before the \<open>try\<close>; \<open>and\<close> evaluates \<open>has_pip\<close> only when \<open>is_installed\<close> holds.
\<close>

definition python_download_and_setup :: "'w os \<Rightarrow> PythonManager \<Rightarrow> bool \<Rightarrow> (bool, 'w) prog" where
  "python_download_and_setup os self cb =
     bind (observe (python_is_installed os self)) (\<lambda>installed.
     bind (if installed then has_pip os self else ret False) (\<lambda>ready.
       if ready
       then seq (report cb 100 100 ''Embedded Python already installed'') (ret True)
       else try_except
         (seq (bind (observe (path_exists os (python_exe self))) (\<lambda>exe_exists.
                 if \<not> exe_exists
                 then seq (report cb 0 100 (''Downloading Python '' @ PYTHON_VERSION @ ''...''))
                     (let zip_path = joinpath (python_base_dir self) ''python_embedded.zip''
                      in seq (python_download_file os PYTHON_URL zip_path cb)
                        (seq (report cb 50 100 ''Extracting Python...'')
                        (seq (act os (Mkdir (python_dir self)))
                        (seq (act os (ExtractAll zip_path (python_dir self)))
                        (act os (Unlink zip_path))))))
                 else ret ()))
         (seq (report cb 65 100 ''Configuring Python paths...'')
         (seq (configure_pth os self)
         (seq (act os (Mkdir (site_packages self)))
         (seq (bind (has_pip os self) (\<lambda>pip.
                 if \<not> pip
                 then seq (report cb 75 100 ''Bootstrapping pip...'') (bootstrap_pip os self cb)
                 else ret ()))
         (seq (report cb 100 100 ''Embedded Python ready'')
         (ret True)))))))
         (\<lambda>e. seq (report cb 0 100 (''Error setting up Python: '' @ msg e)) (ret False))))"

section \<open>CustomNodeManager\<close>

text \<open>A \<open>node_info\<close> is given by the items read: \<open>repo\<close>, \<open>name\<close> and \<open>branch\<close>, strings.\<close>

type_synonym node_info = "string \<rightharpoonup> string"

record CustomNodeManager =
  comfyui_dir :: path

definition custom_nodes_dir :: "CustomNodeManager \<Rightarrow> path" where
  "custom_nodes_dir self = joinpath (comfyui_dir self) ''custom_nodes''"

text \<open>\<open>url.split("/")[-1].replace(".git", "")\<close>.\<close>

definition last_segment :: "string \<Rightarrow> string" where
  "last_segment url = remove_all ''.git'' (last (split_on CHR ''/'' url))"

definition node_name :: "node_info \<Rightarrow> string" where
  "node_name node_info =
     dict_get node_info ''name'' (last_segment (dict_get node_info ''repo'' ''''))"

definition node_target_dir :: "CustomNodeManager \<Rightarrow> node_info \<Rightarrow> path" where
  "node_target_dir self node_info =
     joinpath (custom_nodes_dir self) (last_segment (rstrip CHR ''/'' (dict_get node_info ''repo'' '''')))"

definition venv_install :: "'w os \<Rightarrow> path \<Rightarrow> bool \<Rightarrow> (bool, 'w) prog" where
  "venv_install os requirements_file cb = (\<lambda>(w, t).
     case venv_install_requirements os requirements_file cb w of
       (r, w') \<Rightarrow> (r, (w', t @ [VenvInstallRequirements requirements_file])))"

definition install_node_requirements :: "'w os \<Rightarrow> path \<Rightarrow> bool \<Rightarrow> (bool, 'w) prog" where
  "install_node_requirements os node_dir cb =
     (let requirements_file = joinpath node_dir ''requirements.txt''
      in bind (observe (path_exists os requirements_file)) (\<lambda>found.
           if \<not> found then ret True
           else bind (observe (venv_is_created os)) (\<lambda>created.
             if \<not> created
             then seq (report cb 0 100 ''Warning: venv not created, skipping requirements'') (ret True)
             else venv_install os requirements_file cb)))"

definition install_node :: "'w os \<Rightarrow> CustomNodeManager \<Rightarrow> node_info \<Rightarrow> bool \<Rightarrow> (bool, 'w) prog" where
  "install_node os self node_info cb =
     (let repo_url = dict_get node_info ''repo'' '''';
          name = node_name node_info;
          branch = node_info ''branch'';
          target_dir = node_target_dir self node_info
      in bind (observe (path_exists os target_dir)) (\<lambda>found.
           if found
           then seq (report cb 100 100 (name @ '' already installed'')) (ret True)
           else try_except
             (seq (report cb 0 100 (''Cloning '' @ name @ ''...''))
             (seq (act os (Mkdir (custom_nodes_dir self)))
             (bind (run os ([GIT_PATH os, ''clone'', ''--depth'', ''1'']
                            @ (case branch of None \<Rightarrow> [] | Some b \<Rightarrow> if b = [] then [] else [''-b'', b])
                            @ [repo_url, path_str target_dir]) None) (\<lambda>result.
                if returncode result \<noteq> 0
                then seq (report cb 0 100 (''Error cloning '' @ name @ '': '' @ stderr result)) (ret False)
                else seq (report cb 50 100 (''Installing '' @ name @ '' requirements...''))
                    (seq (bind (install_node_requirements os target_dir cb) (\<lambda>_. ret ()))
                    (seq (report cb 100 100 (name @ '' installed successfully''))
                    (ret True)))))))
             (\<lambda>e. if cls e = FileNotFoundError
                  then seq (report cb 0 100 ''Error: git not found'') (ret False)
                  else seq (report cb 0 100 (''Error: '' @ msg e)) (ret False))))"


section \<open>Reasoning about programs\<close>

text \<open>
  \<open>wp m Q E s\<close>: run from \<open>s\<close>, the program \<open>m\<close> either returns a value and a state that
  satisfy \<open>Q\<close>, or raises an exception that, with the state, satisfies \<open>E\<close>.
\<close>

definition wp ::
  "('a, 'w) prog \<Rightarrow> ('a \<Rightarrow> 'w state \<Rightarrow> bool) \<Rightarrow> (exn \<Rightarrow> 'w state \<Rightarrow> bool) \<Rightarrow> 'w state \<Rightarrow> bool" where
  "wp m Q E s = (case m s of (Inr x, s') \<Rightarrow> Q x s' | (Inl e, s') \<Rightarrow> E e s')"


section \<open>Running an operation again\<close>

definition twice :: "('a, 'w) prog \<Rightarrow> ('a, 'w) prog" where
  "twice m = bind m (\<lambda>_. m)"


section \<open>Counting what a trace holds\<close>

text \<open>
  An error report is a progress callback \<open>(0, 100, message)\<close> whose message starts with
  \<open>Error\<close>, as the messages of the \<open>except\<close> clauses of \<open>install_node\<close> do.
\<close>

definition is_error_report :: "event \<Rightarrow> bool" where
  "is_error_report ev =
     (case ev of Progress c n m \<Rightarrow> c = 0 \<and> n = 100 \<and> take 5 m = ''Error'' | _ \<Rightarrow> False)"

definition error_reports :: "event list \<Rightarrow> nat" where
  "error_reports t = length (filter is_error_report t)"

definition is_spawn :: "event \<Rightarrow> bool" where
  "is_spawn ev = (case ev of Spawn cmd cwd \<Rightarrow> True | _ \<Rightarrow> False)"

definition spawns :: "event list \<Rightarrow> nat" where
  "spawns t = length (filter is_spawn t)"


section \<open>A small world to run the programs in\<close>

text \<open>
  The world of the examples is the list of the paths that exist. Directories and files can
  be made; there is no network and no program to spawn, so every such call raises.
\<close>

definition small_os :: "(path list) os" where
  "small_os = \<lparr>
     path_exists = (\<lambda>p w. p \<in> set w),
     is_dir = (\<lambda>p w. False),
     listing = (\<lambda>d pat r w. []),
     getenv = (\<lambda>k w. None),
     perform = (\<lambda>a w. case a of Mkdir p \<Rightarrow> (None, List.insert p w)
                           | OpenWB p \<Rightarrow> (None, List.insert p w)
                           | _ \<Rightarrow> (None, w)),
     subprocess_run = (\<lambda>cmd cwd w. (Inl (Exn FileNotFoundError ''No such file or directory''), w)),
     urlopen = (\<lambda>url w. (Inl (Exn OSError ''Network is unreachable''), w)),
     requests_get = (\<lambda>url w. (Inl (Exn RequestException ''Network is unreachable''), w)),
     api_request = (\<lambda>method url payload w. (Inl (Exn RequestException ''Connection refused''), w)),
     hf_hub_download = (\<lambda>repo filename subfolder local_dir w. (Inl (Exn OSError ''Network is unreachable''), w)),
     venv_is_created = (\<lambda>w. False),
     venv_install_requirements = (\<lambda>p cb w. (Inr False, w)),
     hf_available = True,
     requests_available = True,
     pathsep = '';'',
     GIT_PATH = ''git'' \<rparr>"

definition sdxl_vae :: model_info where
  "sdxl_vae = [''name'' \<mapsto> ''SDXL VAE'', ''repo'' \<mapsto> ''stabilityai/sdxl-vae'',
               ''filename'' \<mapsto> ''split_files/vae/sdxl_vae.safetensors'', ''folder'' \<mapsto> ''vae'']"












text \<open>
  A world with a network that fails a given number of times before it works: the world is
  the number of failures still to come and the list of the paths that exist. A spawned
  command fails while failures remain; after that \<open>git clone\<close> creates its destination.
\<close>

definition flaky_os :: "(nat \<times> path list) os" where
  "flaky_os = \<lparr>
     path_exists = (\<lambda>p w. p \<in> set (snd w)),
     is_dir = (\<lambda>p w. False),
     listing = (\<lambda>d pat r w. []),
     getenv = (\<lambda>k w. None),
     perform = (\<lambda>a w. case a of Mkdir p \<Rightarrow> (None, (fst w, List.insert p (snd w))) | _ \<Rightarrow> (None, w)),
     subprocess_run = (\<lambda>cmd cwd w.
        if fst w > 0
        then (Inr \<lparr> returncode = 128, stdout = '''', stderr = ''fatal: Could not resolve host: github.com'' \<rparr>,
              (fst w - 1, snd w))
        else (Inr \<lparr> returncode = 0, stdout = '''', stderr = '''' \<rparr>,
              (fst w, List.insert (Path (last cmd)) (snd w)))),
     urlopen = (\<lambda>url w. (Inl (Exn OSError ''Network is unreachable''), w)),
     requests_get = (\<lambda>url w. (Inl (Exn RequestException ''Network is unreachable''), w)),
     api_request = (\<lambda>method url payload w. (Inl (Exn RequestException ''Connection refused''), w)),
     hf_hub_download = (\<lambda>repo filename subfolder local_dir w. (Inl (Exn OSError ''Network is unreachable''), w)),
     venv_is_created = (\<lambda>w. False),
     venv_install_requirements = (\<lambda>p cb w. (Inr False, w)),
     hf_available = True,
     requests_available = True,
     pathsep = '';'',
     GIT_PATH = ''git'' \<rparr>"

text \<open>
  The small world after the embedded Python was unpacked: the \<open>._pth\<close> file is there and
  the interpreter runs, but it has no pip.
\<close>

definition embedded_os :: "(path list) os" where
  "embedded_os = small_os \<lparr>
     listing := (\<lambda>d pat r w. if pat = ''python*._pth'' then [d @ [''python312._pth'']] else []),
     subprocess_run := (\<lambda>cmd cwd w.
        (Inr \<lparr> returncode = 1, stdout = '''', stderr = ''No module named pip'' \<rparr>, w)) \<rparr>"

text \<open>The small world with an embedded Python whose pip answers.\<close>

definition ready_os :: "(path list) os" where
  "ready_os = small_os \<lparr> subprocess_run := (\<lambda>cmd cwd w.
     (Inr \<lparr> returncode = 0, stdout = ''pip 24.3.1'', stderr = '''' \<rparr>, w)) \<rparr>"

text \<open>The small world with executables that cannot be run, as a truncated \<open>python.exe\<close> is.\<close>

definition broken_os :: "(path list) os" where
  "broken_os = small_os \<lparr> subprocess_run := (\<lambda>cmd cwd w.
     (Inl (Exn OSError ''[WinError 193] %1 is not a valid Win32 application''), w)) \<rparr>"

definition manager_node :: node_info where
  "manager_node = [''name'' \<mapsto> ''ComfyUI Manager'',
                   ''repo'' \<mapsto> ''https://github.com/ltdrdata/ComfyUI-Manager.git'']"

definition nodes :: CustomNodeManager where
  "nodes = \<lparr> comfyui_dir = [''ComfyUI''] \<rparr>"

definition py :: PythonManager where
  "py = PythonManager_init [''app'']"




section \<open>Properties of ModelDownloader\<close>

lemma split_on_example: "split_on CHR ''/'' ''split_files/vae/sdxl_vae.safetensors'' = [''split_files'', ''vae'', ''sdxl_vae.safetensors'']"
  by simp





text \<open>
  C9. \<open>get_model_status\<close> answers \<open>installed\<close> exactly when \<open>check_model_exists\<close> is True
  and \<open>missing\<close> otherwise; it never answers \<open>downloading\<close>.
\<close>

theorem get_model_status_values:
  "(get_model_status os self model_info w = ''installed'' \<longleftrightarrow> check_model_exists os self model_info w) \<and>
   (get_model_status os self model_info w = ''missing'' \<longleftrightarrow> \<not> check_model_exists os self model_info w) \<and>
   get_model_status os self model_info w \<noteq> ''downloading''"
  by (simp add: get_model_status_def)

section \<open>Properties of GitManager.run_git\<close>




section \<open>Properties of list_available_models\<close>

lemma dict_set_new: "k \<notin> set (map fst d) \<Longrightarrow> dict_set d k v = d @ [(k, v)]"
  by (induction d) auto

lemma map_of_dict_set: "map_of (dict_set d k v) = (map_of d)(k \<mapsto> v)"
  by (induction d) (auto simp: fun_eq_iff)

lemma MODELS_no_id: "list_all (\<lambda>(model_id, info). ''id'' \<notin> set (map fst info)) MODELS"
  by (simp add: MODELS_def)

lemma MODELS_with_id:
  "(model_id, info) \<in> set MODELS \<Longrightarrow> dict_set info ''id'' v = info @ [(''id'', v)]"
proof -
  assume m: "(model_id, info) \<in> set MODELS"
  have "\<forall>x \<in> set MODELS. case x of (model_id, info) \<Rightarrow> ''id'' \<notin> set (map fst info)"
    using MODELS_no_id by (simp only: list_all_iff)
  with m have "''id'' \<notin> set (map fst info)" by fastforce
  then show ?thesis by (rule dict_set_new)
qed

lemma list_available_models_upscale:
  "map (\<lambda>r. (map_of r ''id'', map_of r ''filename'')) (list_available_models ''upscale_models'')
     = [(Some (PStr ''realesrgan_x4''), Some (PStr ''RealESRGAN_x4.pth'')),
        (Some (PStr ''4x_ultrasharp''), Some (PStr ''4x-UltraSharp.pth''))]"
  by code_simp

text \<open>
  C6. For every category, \<open>list_available_models\<close> returns exactly the records of
  \<open>MODELS\<close> whose \<open>folder\<close> is the category, in the order of the registry, each one the
  registry record with the item \<open>id\<close>, holding its key, added at its end; a record is
  returned for such entries only.
\<close>

theorem list_available_models_exact:
  "list_available_models category =
     map (\<lambda>(model_id, info). info @ [(''id'', PStr model_id)])
       (filter (\<lambda>(model_id, info). map_of info ''folder'' = Some (PStr category)) MODELS) \<and>
   (r \<in> set (list_available_models category) \<longleftrightarrow>
      (\<exists>model_id info. (model_id, info) \<in> set MODELS \<and> map_of info ''folder'' = Some (PStr category)
         \<and> r = info @ [(''id'', PStr model_id)]))"
proof -
  have eq: "list_available_models category =
     map (\<lambda>(model_id, info). info @ [(''id'', PStr model_id)])
       (filter (\<lambda>(model_id, info). map_of info ''folder'' = Some (PStr category)) MODELS)"
    unfolding list_available_models_def
    by (rule map_cong) (auto simp: MODELS_with_id)
  have "r \<in> set (list_available_models category) \<longleftrightarrow>
      (\<exists>model_id info. (model_id, info) \<in> set MODELS \<and> map_of info ''folder'' = Some (PStr category)
         \<and> r = info @ [(''id'', PStr model_id)])"
    unfolding eq by (auto simp: image_iff)
  with eq show ?thesis by simp
qed


section \<open>Properties of floating-point rounding\<close>














section \<open>Rules for programs\<close>

lemma wp_ret: "wp (ret x) Q E = Q x"
  by (simp add: wp_def ret_def fun_eq_iff)

lemma wp_raise: "wp (raise e) Q E = E e"
  by (simp add: wp_def raise_def fun_eq_iff)

lemma wp_bind: "wp (bind m f) Q E = wp m (\<lambda>x. wp (f x) Q E) E"
  by (auto simp: wp_def bind_def fun_eq_iff split: prod.splits sum.splits)

lemma wp_seq: "wp (seq m k) Q E = wp m (\<lambda>_. wp k Q E) E"
  by (simp add: seq_def wp_bind)

lemma wp_try: "wp (try_except m h) Q E = wp m Q (\<lambda>e. wp (h e) Q E)"
  by (auto simp: wp_def try_except_def fun_eq_iff split: prod.splits sum.splits)

lemma wp_observe: "wp (observe f) Q E = (\<lambda>s. Q (f (fst s)) s)"
  by (auto simp: wp_def observe_def fun_eq_iff)

lemma wp_report:
  "wp (report cb c n m) Q E = (\<lambda>s. Q () (fst s, if cb then snd s @ [Progress c n m] else snd s))"
  by (auto simp: wp_def report_def emit_def ret_def fun_eq_iff)


lemma wp_if: "wp (if c then a else b) Q E = (if c then wp a Q E else wp b Q E)"
  by simp





text \<open>The definitions to unfold when a program is run in a given world.\<close>

lemmas prog_defs = bind_def seq_def ret_def raise_def try_except_def observe_def emit_def report_def
  act_def run_def

section \<open>Properties of ModelDownloader.download_model\<close>








section \<open>Properties of the install and setup operations\<close>

lemma node_target: "node_target_dir nodes manager_node = [''ComfyUI'', ''custom_nodes'', ''ComfyUI-Manager'']"
  by (simp add: node_target_dir_def nodes_def manager_node_def custom_nodes_dir_def dict_get_def
      last_segment_def rstrip_def joinpath_def is_absolute_def rel_parts_def)

lemma node_name_example: "node_name manager_node = ''ComfyUI Manager''"
  by (simp add: node_name_def manager_node_def dict_get_def)

lemma custom_nodes_dir_example: "custom_nodes_dir nodes = [''ComfyUI'', ''custom_nodes'']"
  by (simp add: custom_nodes_dir_def nodes_def joinpath_def is_absolute_def rel_parts_def)

lemma node_fields:
  "dict_get manager_node ''repo'' '''' = ''https://github.com/ltdrdata/ComfyUI-Manager.git''"
  "manager_node ''branch'' = None"
  by (simp_all add: manager_node_def dict_get_def)

lemmas node_examples = node_target node_name_example custom_nodes_dir_example node_fields

lemma py_paths:
  "python_exe py = [''app'', ''python_embedded'', ''python.exe'']"
  "site_packages py = [''app'', ''python_embedded'', ''Lib'', ''site-packages'']"
  "python_dir py = [''app'', ''python_embedded'']"
  "python_base_dir py = [''app'']"
  by (simp_all add: py_def PythonManager_init_def PYTHON_DIR_NAME_def joinpath_def is_absolute_def
      rel_parts_def)

lemma install_node_once:
  "install_node flaky_os nodes manager_node True ((Suc 0, []), []) =
     (Inr False, (0, [[''ComfyUI'', ''custom_nodes'']]),
      [Progress 0 100 ''Cloning ComfyUI Manager...'',
       Act (Mkdir [''ComfyUI'', ''custom_nodes'']),
       Spawn [''git'', ''clone'', ''--depth'', ''1'', ''https://github.com/ltdrdata/ComfyUI-Manager.git'',
              ''ComfyUI/custom_nodes/ComfyUI-Manager''] None,
       Progress 0 100 ''Error cloning ComfyUI Manager: fatal: Could not resolve host: github.com''])"
  by (simp add: install_node_def node_examples Let_def prog_defs flaky_os_def)

lemma install_node_twice:
  "twice (install_node flaky_os nodes manager_node True) ((Suc 0, []), []) =
     (Inr True,
      (0, [[''ComfyUI'', ''custom_nodes'', ''ComfyUI-Manager''], [''ComfyUI'', ''custom_nodes'']]),
      [Progress 0 100 ''Cloning ComfyUI Manager...'',
       Act (Mkdir [''ComfyUI'', ''custom_nodes'']),
       Spawn [''git'', ''clone'', ''--depth'', ''1'', ''https://github.com/ltdrdata/ComfyUI-Manager.git'',
              ''ComfyUI/custom_nodes/ComfyUI-Manager''] None,
       Progress 0 100 ''Error cloning ComfyUI Manager: fatal: Could not resolve host: github.com'',
       Progress 0 100 ''Cloning ComfyUI Manager...'',
       Act (Mkdir [''ComfyUI'', ''custom_nodes'']),
       Spawn [''git'', ''clone'', ''--depth'', ''1'', ''https://github.com/ltdrdata/ComfyUI-Manager.git'',
              ''ComfyUI/custom_nodes/ComfyUI-Manager''] None,
       Progress 50 100 ''Installing ComfyUI Manager requirements...'',
       Progress 100 100 ''ComfyUI Manager installed successfully''])"
  apply (simp add: twice_def bind_def [of "install_node flaky_os nodes manager_node True"] install_node_once)
  apply (simp add: install_node_def node_examples Let_def prog_defs flaky_os_def install_node_requirements_def
       Path_def joinpath_def is_absolute_def rel_parts_def)
  done

lemma python_half_installed:
  "python_download_and_setup embedded_os py True ([[''app'', ''python_embedded'', ''python.exe'']], []) =
     (Inr False,
      [[''app'', ''python_embedded'', ''Lib'', ''site-packages''], [''app'', ''python_embedded'', ''python.exe'']],
      [Progress 65 100 ''Configuring Python paths...'',
       Act (WriteText [''app'', ''python_embedded'', ''python312._pth'']
             (join [CHR 0x0A] [''python312.zip'', ''.'', ''Lib'', ''Lib'' @ [CHR 0x5C] @ ''site-packages'', '''',
                               ''import site''])),
       Act (Mkdir [''app'', ''python_embedded'', ''Lib'', ''site-packages'']),
       Spawn [''app/python_embedded/python.exe'', ''-m'', ''pip'', ''--version''] None,
       Progress 75 100 ''Bootstrapping pip...'',
       Progress 78 100 ''Downloading get-pip.py...'',
       UrlOpen ''https://bootstrap.pypa.io/get-pip.py'',
       Progress 0 100 ''Error setting up Python: Network is unreachable''])"
  by (simp add: python_download_and_setup_def python_is_installed_def py_paths has_pip_def
      configure_pth_def pth_file_def bootstrap_pip_def url_open_def embedded_os_def small_os_def
      prog_defs Let_def joinpath_def is_absolute_def rel_parts_def path_name_def)

text \<open>
  C4 as stated fails twice over. With \<open>python.exe\<close> on disk but no \<open>site-packages\<close>,
  \<open>PythonManager.download_and_setup\<close> does not return at once: it writes the \<open>._pth\<close> file,
  creates \<open>site-packages\<close>, tries to download \<open>get-pip.py\<close> and returns False. And from
  a state without the custom node, on a network that fails once, running \<open>install_node\<close>
  once leaves the node missing while running it twice leaves it installed.
\<close>

theorem setup_not_idempotent:
  "path_exists embedded_os (python_exe py) [[''app'', ''python_embedded'', ''python.exe'']] \<and>
   fst (python_download_and_setup embedded_os py True ([[''app'', ''python_embedded'', ''python.exe'']], []))
     = Inr False \<and>
   fst (snd (python_download_and_setup embedded_os py True ([[''app'', ''python_embedded'', ''python.exe'']], [])))
     = [[''app'', ''python_embedded'', ''Lib'', ''site-packages''], [''app'', ''python_embedded'', ''python.exe'']] \<and>
   \<not> path_exists flaky_os (node_target_dir nodes manager_node)
       (fst (snd (install_node flaky_os nodes manager_node True ((Suc 0, []), [])))) \<and>
   path_exists flaky_os (node_target_dir nodes manager_node)
       (fst (snd (twice (install_node flaky_os nodes manager_node True) ((Suc 0, []), []))))"
  by (simp add: python_half_installed install_node_once install_node_twice node_target py_paths)
     (simp add: embedded_os_def small_os_def flaky_os_def)

text \<open>
  C5 fails on the code. With \<open>python.exe\<close> and \<open>site-packages\<close> on disk and an interpreter
  that cannot be spawned, the guard of \<open>PythonManager.download_and_setup\<close> raises before
  the \<open>try\<close> is entered: the \<open>OSError\<close> reaches the caller, nothing is reported through
  the progress callback, and False is not returned.
\<close>

theorem python_setup_guard_raises:
  "python_download_and_setup broken_os py True
     ([[''app'', ''python_embedded'', ''python.exe''], [''app'', ''python_embedded'', ''Lib'', ''site-packages'']], [])
   = (Inl (Exn OSError ''[WinError 193] %1 is not a valid Win32 application''),
      [[''app'', ''python_embedded'', ''python.exe''], [''app'', ''python_embedded'', ''Lib'', ''site-packages'']],
      [Spawn [''app/python_embedded/python.exe'', ''-m'', ''pip'', ''--version''] None])"
  by (simp add: python_download_and_setup_def python_is_installed_def py_paths has_pip_def
      broken_os_def small_os_def prog_defs)

lemma report_run:
  "report cb c n m (w, t) = (Inr (), (w, if cb then t @ [Progress c n m] else t))"
  by (simp add: report_def emit_def ret_def)

lemma install_node_skip:
  "path_exists os (node_target_dir self node_info) w \<Longrightarrow>
     install_node os self node_info cb (w, t) =
       (Inr True, (w, if cb then t @ [Progress 100 100 (node_name node_info @ '' already installed'')] else t))"
  by (simp add: install_node_def Let_def bind_def seq_def observe_def ret_def report_run)

lemma git_skip:
  "git_is_installed os self w \<Longrightarrow>
     git_download_and_setup os self cb (w, t) =
       (Inr True, (w, if cb then t @ [Progress 100 100 ''Portable Git already installed''] else t))"
  by (simp add: git_download_and_setup_def bind_def seq_def observe_def ret_def report_run)

lemma ffmpeg_skip:
  "ffmpeg_is_installed os self w \<Longrightarrow>
     ffmpeg_download_and_setup os self cb (w, t) =
       (Inr True, (w, if cb then t @ [Progress 100 100 ''Portable FFmpeg already installed''] else t))"
  by (simp add: ffmpeg_download_and_setup_def bind_def seq_def observe_def ret_def report_run)

lemma python_skip:
  assumes "python_is_installed os self w"
    and "subprocess_run os [path_str (python_exe self), ''-m'', ''pip'', ''--version''] None w = (Inr r, w')"
    and "returncode r = 0"
  shows "python_download_and_setup os self cb (w, t) =
       (Inr True, (w', t @ [Spawn [path_str (python_exe self), ''-m'', ''pip'', ''--version''] None]
                       @ (if cb then [Progress 100 100 ''Embedded Python already installed''] else [])))"
  using assms
  by (simp add: python_download_and_setup_def python_is_installed_def has_pip_def bind_def seq_def
      observe_def ret_def report_run run_def)

text \<open>
  C4, as the code has it. When the target directory of a custom node exists,
  \<open>install_node\<close> returns True, reports "already installed" through the progress callback
  if there is one, and does nothing else; so do the \<open>download_and_setup\<close> of \<open>GitManager\<close>
  and \<open>FfmpegManager\<close> when their executable exists. From such a state, running the
  operation twice leaves the world that running it once leaves. \<open>PythonManager\<close> skips
  when \<open>python.exe\<close> and \<open>site-packages\<close> exist and \<open>python -m pip --version\<close> exits with
  code zero; that probe is the one thing it runs.
\<close>

theorem clone_or_skip:
  "(path_exists os (node_target_dir nm node_info) w \<longrightarrow>
      install_node os nm node_info cb (w, t) =
        (Inr True, (w, if cb then t @ [Progress 100 100 (node_name node_info @ '' already installed'')] else t))
      \<and> fst (snd (twice (install_node os nm node_info cb) (w, t))) = fst (snd (install_node os nm node_info cb (w, t)))) \<and>
   (git_is_installed os gm w \<longrightarrow>
      git_download_and_setup os gm cb (w, t) =
        (Inr True, (w, if cb then t @ [Progress 100 100 ''Portable Git already installed''] else t))
      \<and> fst (snd (twice (git_download_and_setup os gm cb) (w, t))) = fst (snd (git_download_and_setup os gm cb (w, t)))) \<and>
   (ffmpeg_is_installed os fm w \<longrightarrow>
      ffmpeg_download_and_setup os fm cb (w, t) =
        (Inr True, (w, if cb then t @ [Progress 100 100 ''Portable FFmpeg already installed''] else t))
      \<and> fst (snd (twice (ffmpeg_download_and_setup os fm cb) (w, t))) = fst (snd (ffmpeg_download_and_setup os fm cb (w, t)))) \<and>
   (python_is_installed os pm w
      \<and> subprocess_run os [path_str (python_exe pm), ''-m'', ''pip'', ''--version''] None w = (Inr r, w')
      \<and> returncode r = 0 \<longrightarrow>
      python_download_and_setup os pm cb (w, t) =
        (Inr True, (w', t @ [Spawn [path_str (python_exe pm), ''-m'', ''pip'', ''--version''] None]
                        @ (if cb then [Progress 100 100 ''Embedded Python already installed''] else []))))"
proof (intro conjI impI)
  assume a: "path_exists os (node_target_dir nm node_info) w"
  then show "install_node os nm node_info cb (w, t) =
        (Inr True, (w, if cb then t @ [Progress 100 100 (node_name node_info @ '' already installed'')] else t))"
    by (rule install_node_skip)
  from a show "fst (snd (twice (install_node os nm node_info cb) (w, t))) = fst (snd (install_node os nm node_info cb (w, t)))"
    by (simp add: twice_def bind_def install_node_skip)
next
  assume a: "git_is_installed os gm w"
  then show "git_download_and_setup os gm cb (w, t) =
        (Inr True, (w, if cb then t @ [Progress 100 100 ''Portable Git already installed''] else t))"
    by (rule git_skip)
  from a show "fst (snd (twice (git_download_and_setup os gm cb) (w, t))) = fst (snd (git_download_and_setup os gm cb (w, t)))"
    by (simp add: twice_def bind_def git_skip)
next
  assume a: "ffmpeg_is_installed os fm w"
  then show "ffmpeg_download_and_setup os fm cb (w, t) =
        (Inr True, (w, if cb then t @ [Progress 100 100 ''Portable FFmpeg already installed''] else t))"
    by (rule ffmpeg_skip)
  from a show "fst (snd (twice (ffmpeg_download_and_setup os fm cb) (w, t))) = fst (snd (ffmpeg_download_and_setup os fm cb (w, t)))"
    by (simp add: twice_def bind_def ffmpeg_skip)
next
  assume "python_is_installed os pm w
      \<and> subprocess_run os [path_str (python_exe pm), ''-m'', ''pip'', ''--version''] None w = (Inr r, w')
      \<and> returncode r = 0"
  then show "python_download_and_setup os pm cb (w, t) =
        (Inr True, (w', t @ [Spawn [path_str (python_exe pm), ''-m'', ''pip'', ''--version''] None]
                        @ (if cb then [Progress 100 100 ''Embedded Python already installed''] else [])))"
    using python_skip [of os pm w r w' cb t] by simp
qed


lemma manager_paths:
  "git_exe (GitManager_init [''app'']) = [''app'', ''git_portable'', ''cmd'', ''git.exe'']"
  "ffmpeg_exe (FfmpegManager_init [''app'']) = [''app'', ''ffmpeg_portable'', ''bin'', ''ffmpeg.exe'']"
  by (simp_all add: GitManager_init_def GIT_DIR_NAME_def FfmpegManager_init_def FFMPEG_DIR_NAME_def
      joinpath_def is_absolute_def rel_parts_def)

theorem clone_or_skip_witness:
  "install_node small_os nodes manager_node True ([[''ComfyUI'', ''custom_nodes'', ''ComfyUI-Manager'']], [])
     = (Inr True, ([[''ComfyUI'', ''custom_nodes'', ''ComfyUI-Manager'']],
                   [Progress 100 100 ''ComfyUI Manager already installed''])) \<and>
   git_download_and_setup small_os (GitManager_init [''app'']) True
       ([[''app'', ''git_portable'', ''cmd'', ''git.exe'']], [])
     = (Inr True, ([[''app'', ''git_portable'', ''cmd'', ''git.exe'']],
                   [Progress 100 100 ''Portable Git already installed''])) \<and>
   ffmpeg_download_and_setup small_os (FfmpegManager_init [''app'']) True
       ([[''app'', ''ffmpeg_portable'', ''bin'', ''ffmpeg.exe'']], [])
     = (Inr True, ([[''app'', ''ffmpeg_portable'', ''bin'', ''ffmpeg.exe'']],
                   [Progress 100 100 ''Portable FFmpeg already installed''])) \<and>
   python_download_and_setup ready_os py True
       ([[''app'', ''python_embedded'', ''python.exe''], [''app'', ''python_embedded'', ''Lib'', ''site-packages'']], [])
     = (Inr True, ([[''app'', ''python_embedded'', ''python.exe''], [''app'', ''python_embedded'', ''Lib'', ''site-packages'']],
                   [Spawn [''app/python_embedded/python.exe'', ''-m'', ''pip'', ''--version''] None,
                    Progress 100 100 ''Embedded Python already installed'']))"
proof -
  have n: "path_exists small_os (node_target_dir nodes manager_node)
             [[''ComfyUI'', ''custom_nodes'', ''ComfyUI-Manager'']]"
    by (simp add: node_target small_os_def)
  have g: "git_is_installed small_os (GitManager_init [''app'']) [[''app'', ''git_portable'', ''cmd'', ''git.exe'']]"
    by (simp add: git_is_installed_def manager_paths small_os_def)
  have f: "ffmpeg_is_installed small_os (FfmpegManager_init [''app''])
             [[''app'', ''ffmpeg_portable'', ''bin'', ''ffmpeg.exe'']]"
    by (simp add: ffmpeg_is_installed_def manager_paths small_os_def)
  have p: "python_is_installed ready_os py
             [[''app'', ''python_embedded'', ''python.exe''], [''app'', ''python_embedded'', ''Lib'', ''site-packages'']]
           \<and> subprocess_run ready_os [path_str (python_exe py), ''-m'', ''pip'', ''--version''] None
             [[''app'', ''python_embedded'', ''python.exe''], [''app'', ''python_embedded'', ''Lib'', ''site-packages'']]
             = (Inr \<lparr> returncode = 0, stdout = ''pip 24.3.1'', stderr = '''' \<rparr>,
                [[''app'', ''python_embedded'', ''python.exe''], [''app'', ''python_embedded'', ''Lib'', ''site-packages'']])
           \<and> returncode \<lparr> returncode = 0, stdout = ''pip 24.3.1'', stderr = '''' \<rparr> = 0"
    by (simp add: python_is_installed_def py_paths ready_os_def small_os_def)
  from n have "install_node small_os nodes manager_node True ([[''ComfyUI'', ''custom_nodes'', ''ComfyUI-Manager'']], [])
     = (Inr True, ([[''ComfyUI'', ''custom_nodes'', ''ComfyUI-Manager'']],
                   [Progress 100 100 ''ComfyUI Manager already installed'']))"
    using clone_or_skip [where os = small_os and nm = nodes and node_info = manager_node and cb = True
        and w = "[[''ComfyUI'', ''custom_nodes'', ''ComfyUI-Manager'']]" and t = "[]"]
    by (simp add: node_name_example)
  moreover from g have "git_download_and_setup small_os (GitManager_init [''app'']) True
       ([[''app'', ''git_portable'', ''cmd'', ''git.exe'']], [])
     = (Inr True, ([[''app'', ''git_portable'', ''cmd'', ''git.exe'']],
                   [Progress 100 100 ''Portable Git already installed'']))"
    using clone_or_skip [where os = small_os and gm = "GitManager_init [''app'']" and cb = True
        and w = "[[''app'', ''git_portable'', ''cmd'', ''git.exe'']]" and t = "[]"]
    by simp
  moreover from f have "ffmpeg_download_and_setup small_os (FfmpegManager_init [''app'']) True
       ([[''app'', ''ffmpeg_portable'', ''bin'', ''ffmpeg.exe'']], [])
     = (Inr True, ([[''app'', ''ffmpeg_portable'', ''bin'', ''ffmpeg.exe'']],
                   [Progress 100 100 ''Portable FFmpeg already installed'']))"
    using clone_or_skip [where os = small_os and fm = "FfmpegManager_init [''app'']" and cb = True
        and w = "[[''app'', ''ffmpeg_portable'', ''bin'', ''ffmpeg.exe'']]" and t = "[]"]
    by simp
  moreover from p have "python_download_and_setup ready_os py True
       ([[''app'', ''python_embedded'', ''python.exe''], [''app'', ''python_embedded'', ''Lib'', ''site-packages'']], [])
     = (Inr True, ([[''app'', ''python_embedded'', ''python.exe''], [''app'', ''python_embedded'', ''Lib'', ''site-packages'']],
                   [Spawn [''app/python_embedded/python.exe'', ''-m'', ''pip'', ''--version''] None,
                    Progress 100 100 ''Embedded Python already installed'']))"
    using clone_or_skip [where os = ready_os and pm = py and cb = True
        and w = "[[''app'', ''python_embedded'', ''python.exe''], [''app'', ''python_embedded'', ''Lib'', ''site-packages'']]"
        and t = "[]"
        and r = "\<lparr> returncode = 0, stdout = ''pip 24.3.1'', stderr = '''' \<rparr>"
        and w' = "[[''app'', ''python_embedded'', ''python.exe''], [''app'', ''python_embedded'', ''Lib'', ''site-packages'']]"]
    by (simp add: py_paths)
  ultimately show ?thesis by simp
qed


section \<open>Properties of GitManager._download_file\<close>









section \<open>Failures of install_node\<close>

lemma error_reports_simps [simp]:
  "error_reports (a @ b) = error_reports a + error_reports b"
  "error_reports [] = 0"
  "error_reports (ev # t) = (if is_error_report ev then 1 else 0) + error_reports t"
  by (simp_all add: error_reports_def)

lemma spawns_simps [simp]:
  "spawns (a @ b) = spawns a + spawns b"
  "spawns [] = 0"
  "spawns (ev # t) = (if is_spawn ev then 1 else 0) + spawns t"
  by (simp_all add: spawns_def)

lemma wp_act:
  "wp (act os a) Q E = (\<lambda>s. case perform os a (fst s) of
       (None, w') \<Rightarrow> Q () (w', snd s @ [Act a])
     | (Some e, w') \<Rightarrow> E e (w', snd s @ [Act a]))"
  by (auto simp: wp_def act_def fun_eq_iff split: prod.splits option.splits)

lemma wp_run:
  "wp (run os cmd cwd) Q E = (\<lambda>s. case subprocess_run os cmd cwd (fst s) of
       (Inr r, w') \<Rightarrow> Q r (w', snd s @ [Spawn cmd cwd])
     | (Inl e, w') \<Rightarrow> E e (w', snd s @ [Spawn cmd cwd]))"
  by (auto simp: wp_def run_def fun_eq_iff split: prod.splits sum.splits)

lemma wp_venv_install:
  "wp (venv_install os p cb) Q E = (\<lambda>s. case venv_install_requirements os p cb (fst s) of
       (Inr r, w') \<Rightarrow> Q r (w', snd s @ [VenvInstallRequirements p])
     | (Inl e, w') \<Rightarrow> E e (w', snd s @ [VenvInstallRequirements p]))"
  by (auto simp: wp_def venv_install_def fun_eq_iff split: prod.splits sum.splits)

text \<open>
  \<open>install_node\<close> raises nothing. When it returns False, it has reported exactly one
  error through the progress callback and has spawned git at most once: the failed step
  is not tried again. What the virtual-environment manager reports while it installs
  the requirements is inside its own event.
\<close>

lemma install_node_reports_once:
  "wp (install_node os self node_info True)
      (\<lambda>ok s. \<not> ok \<longrightarrow> error_reports (snd s) = error_reports t + 1 \<and> spawns (snd s) \<le> spawns t + 1)
      (\<lambda>e s. False) (w, t)"
  by (simp add: install_node_def install_node_requirements_def Let_def
      wp_ret wp_raise wp_bind wp_seq wp_try wp_observe wp_report wp_if wp_act wp_run wp_venv_install
      is_error_report_def is_spawn_def
      split: prod.splits sum.splits option.splits)


section \<open>Which operations raise\<close>














end
